theory Spec2Isabelle
  imports Main
begin

section \<open>Data model\<close>

text \<open>
  A shallow embedding of the backend of the email scheduler: the rate-limit service,
  the mail service, the queue service with its worker, and the scheduling controller.

  Conventions of the embedding.
  \<^item> A JavaScript \<open>Date\<close> is its \<open>getTime()\<close>, an integer number of milliseconds; numbers
    are mathematical integers (JavaScript arithmetic is exact on integers below \<open>2^53\<close>).
  \<^item> A string is a list of code units in the range U+0000 .. U+00FF.
  \<^item> A Prisma table is an association list from the primary key to the row, in insertion
    order; Redis is a finite map.
  \<^item> An exception is a value: a function that can throw returns a \<open>signal\<close> together with
    the state it leaves behind.
  \<^item> Every call of an effectful service appends an event to the \<open>trace\<close> of the state, so
    that the order of effects can be stated.
  \<^item> Each service function runs atomically, and the database and Redis themselves do not
    fail.
  \<^item> The clock is an input: a function that reads it takes the instant as an argument.
    The processor of the worker, whose course depends on how its readings relate, takes
    one instant for each place where it reads the clock, and nothing is assumed about how
    these instants relate.
\<close>

datatype job_status = Pending | Sent | Failed

datatype schedule_status = Scheduled | InProgress | Completed

record attachment =
  filename :: string
  contentBase64 :: string
  contentType :: string

text \<open>\<open>EmailJobData\<close> of \<open>types/index.ts\<close>: the payload of a queued job.\<close>

record EmailJobData =
  scheduleId :: string
  userId :: string
  recipient :: string
  subject :: string
  body :: string
  scheduledTime :: int
  attachments :: "attachment list"

text \<open>
  The id \<open>scheduleEmailJob\<close> gives a queued job is the string
  \<open>${scheduleId}-${recipient}-${Date.now()}\<close>; the model keeps its three components.
\<close>

type_synonym bull_id = "string \<times> string \<times> int"

record bull_job =
  bj_name :: string
  bj_data :: EmailJobData
  bj_delay :: int
  bj_id :: bull_id

text \<open>
  The rows the code reads and writes. Modelled from the spec: the Prisma schema
  (\<open>prisma/schema.prisma\<close>) is not among the sources; the columns are those the code
  names, and a created row starts with \<open>sentCount = failedCount = 0\<close>, no \<open>sentTime\<close>, no
  \<open>errorMessage\<close> and no \<open>jobId\<close>.
\<close>

record user_row =
  us_email :: string
  us_name :: string

record email_schedule_row =
  es_userId :: string
  es_subject :: string
  es_body :: string
  es_recipients :: "string list"
  es_startTime :: int
  es_delayMs :: int
  es_hourlyLimit :: int
  es_totalCount :: nat
  es_sentCount :: nat
  es_failedCount :: nat
  es_status :: schedule_status
  es_updatedAt :: int

record email_job_row =
  ej_scheduleId :: string
  ej_userId :: string
  ej_recipient :: string
  ej_subject :: string
  ej_body :: string
  ej_scheduledTime :: int
  ej_status :: job_status
  ej_sentTime :: "int option"
  ej_errorMessage :: "string option"
  ej_jobId :: "bull_id option"
  ej_updatedAt :: int

text \<open>
  What \<open>transporter.sendMail\<close> is handed. The \<open>html\<close> field (the body wrapped in a fixed
  template that also prints the instant of the call) and the decoding of the attachments
  from base64 are left out.
\<close>

record mail_options =
  mo_from :: string
  mo_to :: string
  mo_subject :: string
  mo_text :: string
  mo_attachments :: "attachment list"

text \<open>
  A thrown value is an \<open>Error\<close> with its message, or something that is not an \<open>Error\<close>.
  The Mailer accepts a message (returning its id) or throws; the kind of a transport
  failure is the taxonomy of the specification, which the code never inspects.
\<close>

datatype thrown = ErrorObj string | NonError

datatype transport_kind = TransientTransport | PermanentTransport

datatype mail_outcome = Accepted string | Rejected transport_kind thrown

datatype 'a signal = Return 'a | Throw thrown

datatype event =
    RateLimitChecked string int
  | RateLimitIncremented string
  | MailerCalled mail_options
  | MovedToDelayed int
  | JobStatusWritten string job_status
  | Slept int
  | CountsRecomputed string

text \<open>
  An hour window \<open>YYYY-MM-DD-HH\<close> (UTC) names one hour since the epoch; the model keys the
  counters by the number of that hour and by the sender. \<open>getNextHourWindow\<close> parses the
  string back with \<open>Date.UTC\<close> and adds one hour; for the instants a system clock gives
  (from the year 100 on, where \<open>Date.UTC\<close> takes the year as written, and within the range
  of \<open>Date\<close>) that is the start of the following hour. The model is written for these
  instants.
\<close>

type_synonym rate_key = "int \<times> string"

record world =
  user_tbl :: "(string \<times> user_row) list"
  emailSchedule_tbl :: "(string \<times> email_schedule_row) list"
  emailJob_tbl :: "(string \<times> email_job_row) list"
  rateLimitCounter_tbl :: "rate_key \<rightharpoonup> int"
  redis :: "rate_key \<rightharpoonup> int"
  redis_ttl :: "rate_key \<rightharpoonup> int"
  emailQueue :: "bull_job list option"
  trace :: "event list"

text \<open>The three settings \<open>queueService.ts\<close> reads from the environment.\<close>

record config =
  WORKER_CONCURRENCY :: int
  DELAY_BETWEEN_EMAILS_MS :: int
  MAX_EMAILS_PER_HOUR :: int

definition default_config :: config where
  "default_config =
     \<lparr>WORKER_CONCURRENCY = 5, DELAY_BETWEEN_EMAILS_MS = 2000, MAX_EMAILS_PER_HOUR = 200\<rparr>"

definition emit :: "event \<Rightarrow> world \<Rightarrow> world" where
  "emit e w = w\<lparr>trace := trace w @ [e]\<rparr>"

section \<open>Rate limiting service\<close>

definition HOUR_IN_SECONDS :: int where
  "HOUR_IN_SECONDS = 3600"

definition getHourWindow :: "int \<Rightarrow> int" where
  "getHourWindow date = date div 3600000"

definition getNextHourWindow :: "int \<Rightarrow> int" where
  "getNextHourWindow hourWindow = hourWindow * 3600000 + 3600000"

record rate_check =
  canSend :: bool
  currentCount :: int
  limit :: int
  nextWindowTime :: int

text \<open>
  \<open>checkRateLimit\<close>: the Redis value if the key is there, else the count of the database
  row, else zero. It writes nothing.
\<close>

definition checkRateLimit :: "int \<Rightarrow> string \<Rightarrow> int \<Rightarrow> world \<Rightarrow> rate_check \<times> world" where
  "checkRateLimit now sender lim w =
     (let hourWindow = getHourWindow now;
          redisKey = (hourWindow, sender);
          count = (case redis w redisKey of
                     Some c \<Rightarrow> c
                   | None \<Rightarrow>
                       (case rateLimitCounter_tbl w (hourWindow, sender) of
                          Some dbCount \<Rightarrow> dbCount
                        | None \<Rightarrow> 0));
          currentCount = count;
          canSend = (currentCount < lim);
          nextWindow = getNextHourWindow hourWindow
      in (\<lparr>canSend = canSend, currentCount = currentCount, limit = lim,
           nextWindowTime = nextWindow\<rparr>,
          emit (RateLimitChecked sender lim) w))"

text \<open>
  \<open>incrementRateLimit\<close>: Redis \<open>INCR\<close> (an absent key counts from zero), the expiry on
  the first increment, and the upsert of the database row with the new count.
\<close>

definition incrementRateLimit :: "int \<Rightarrow> string \<Rightarrow> world \<Rightarrow> int \<times> world" where
  "incrementRateLimit now sender w =
     (let hourWindow = getHourWindow now;
          redisKey = (hourWindow, sender);
          newCount = (case redis w redisKey of Some c \<Rightarrow> c + 1 | None \<Rightarrow> 1);
          w1 = w\<lparr>redis := (redis w)(redisKey \<mapsto> newCount)\<rparr>;
          w2 = (if newCount = 1
                then w1\<lparr>redis_ttl := (redis_ttl w1)(redisKey \<mapsto> HOUR_IN_SECONDS + 60)\<rparr>
                else w1);
          w3 = w2\<lparr>rateLimitCounter_tbl :=
                    (rateLimitCounter_tbl w2)((hourWindow, sender) \<mapsto> newCount)\<rparr>
      in (newCount, emit (RateLimitIncremented sender) w3))"

text \<open>
  \<open>resetRateLimit\<close>: with a sender, the Redis key and the database rows of the current
  hour and that sender are deleted; without one, every Redis key of the current hour.
  The test is \<open>if (sender)\<close>, so the empty string counts as no sender.
\<close>

definition resetRateLimit :: "int \<Rightarrow> string option \<Rightarrow> world \<Rightarrow> world" where
  "resetRateLimit now sender w =
     (let hourWindow = getHourWindow now
      in case sender of
           Some (c # cs) \<Rightarrow>
             w\<lparr>redis := (redis w)((hourWindow, c # cs) := None),
               redis_ttl := (redis_ttl w)((hourWindow, c # cs) := None),
               rateLimitCounter_tbl := (rateLimitCounter_tbl w)((hourWindow, c # cs) := None)\<rparr>
         | _ \<Rightarrow>
             w\<lparr>redis := (\<lambda>k. if fst k = hourWindow then None else redis w k),
               redis_ttl := (\<lambda>k. if fst k = hourWindow then None else redis_ttl w k)\<rparr>)"

section \<open>Email service\<close>

record send_result =
  success :: bool
  messageId :: "string option"
  error :: "string option"

definition error_message :: "thrown \<Rightarrow> string" where
  "error_message e = (case e of ErrorObj m \<Rightarrow> m | NonError \<Rightarrow> ''Unknown error'')"

text \<open>
  \<open>sendEmail\<close>. The \<open>try\<close> block: \<open>getEmailTransporter\<close> throws when the transporter
  was never initialised (\<open>None\<close>), \<open>sendMail\<close> throws what the Mailer throws, and the
  result of a message the Mailer accepts carries its id. The \<open>catch\<close> block turns what was
  thrown into a result: the message of an \<open>Error\<close>, or \<open>Unknown error\<close>.
\<close>

definition sendEmail_try ::
  "(mail_options \<Rightarrow> mail_outcome) option \<Rightarrow> string \<Rightarrow> string \<Rightarrow> string \<Rightarrow> string \<Rightarrow>
   attachment list \<Rightarrow> world \<Rightarrow> send_result signal \<times> world" where
  "sendEmail_try transporter rcpt subj bdy sender atts w =
     (case transporter of
        None \<Rightarrow>
          (Throw (ErrorObj
             ''Email transporter not initialized. Call initializeEmailTransporter() first.''), w)
      | Some sendMail \<Rightarrow>
          (let mailOptions = \<lparr>mo_from = sender, mo_to = rcpt, mo_subject = subj,
                              mo_text = bdy, mo_attachments = atts\<rparr>;
               w1 = emit (MailerCalled mailOptions) w
           in case sendMail mailOptions of
                Accepted mid \<Rightarrow>
                  (Return \<lparr>success = True, messageId = Some mid, error = None\<rparr>, w1)
              | Rejected kind e \<Rightarrow> (Throw e, w1)))"

definition sendEmail ::
  "(mail_options \<Rightarrow> mail_outcome) option \<Rightarrow> string \<Rightarrow> string \<Rightarrow> string \<Rightarrow> string \<Rightarrow>
   attachment list \<Rightarrow> world \<Rightarrow> send_result signal \<times> world" where
  "sendEmail transporter rcpt subj bdy sender atts w =
     (case sendEmail_try transporter rcpt subj bdy sender atts w of
        (Return r, w') \<Rightarrow> (Return r, w')
      | (Throw e, w') \<Rightarrow>
          (let errorMessage = error_message e
           in (Return \<lparr>success = False, messageId = None, error = Some errorMessage\<rparr>, w')))"

record status_options =
  sentTime :: "int option"
  errorMessage :: "string option"

definition findUnique :: "('k \<times> 'v) list \<Rightarrow> 'k \<Rightarrow> 'v option" where
  "findUnique tbl k = map_of tbl k"

definition update_row :: "'k \<Rightarrow> ('v \<Rightarrow> 'v) \<Rightarrow> ('k \<times> 'v) list \<Rightarrow> ('k \<times> 'v) list" where
  "update_row k f tbl = map (\<lambda>(k', v). if k' = k then (k', f v) else (k', v)) tbl"

text \<open>
  \<open>updateEmailJobStatus\<close>: Prisma's \<open>update\<close> throws when no row has the id; a field given
  as \<open>undefined\<close> is left as it is. There is no condition on the row's present status.
\<close>

definition updateEmailJobStatus ::
  "int \<Rightarrow> string \<Rightarrow> job_status \<Rightarrow> status_options \<Rightarrow> world \<Rightarrow> unit signal \<times> world" where
  "updateEmailJobStatus now jobId st opts w =
     (case findUnique (emailJob_tbl w) jobId of
        None \<Rightarrow> (Throw (ErrorObj ''Record to update not found.''), w)
      | Some _ \<Rightarrow>
          (Return (),
           emit (JobStatusWritten jobId st)
             (w\<lparr>emailJob_tbl :=
                  update_row jobId
                    (\<lambda>r. r\<lparr>ej_status := st,
                            ej_sentTime := (case sentTime opts of
                                              Some t \<Rightarrow> Some t | None \<Rightarrow> ej_sentTime r),
                            ej_errorMessage := (case errorMessage opts of
                                                  Some m \<Rightarrow> Some m | None \<Rightarrow> ej_errorMessage r),
                            ej_updatedAt := now\<rparr>)
                    (emailJob_tbl w)\<rparr>)))"

definition getEmailJobCountByStatus :: "string \<Rightarrow> job_status \<Rightarrow> world \<Rightarrow> nat" where
  "getEmailJobCountByStatus sid st w =
     length (filter (\<lambda>(k, r). ej_scheduleId r = sid \<and> ej_status r = st) (emailJob_tbl w))"

definition updateScheduleCounts :: "int \<Rightarrow> string \<Rightarrow> world \<Rightarrow> world" where
  "updateScheduleCounts now sid w =
     (let sentCount = getEmailJobCountByStatus sid Sent w;
          failedCount = getEmailJobCountByStatus sid Failed w;
          w1 = emit (CountsRecomputed sid) w
      in case findUnique (emailSchedule_tbl w) sid of
           None \<Rightarrow> w1
         | Some schedule \<Rightarrow>
             (let sentPlus = sentCount + failedCount;
                  isCompleted = (sentPlus \<ge> es_totalCount schedule)
              in w1\<lparr>emailSchedule_tbl :=
                      update_row sid
                        (\<lambda>r. r\<lparr>es_sentCount := sentCount,
                                es_failedCount := failedCount,
                                es_status := (if isCompleted then Completed else InProgress),
                                es_updatedAt := now\<rparr>)
                        (emailSchedule_tbl w)\<rparr>))"

section \<open>Queue service\<close>

text \<open>
  \<open>initializeQueue\<close> creates the queue once, with the default job options
  \<open>attempts: 3\<close> and an exponential backoff of 2000 ms.
\<close>

definition initializeQueue :: "world \<Rightarrow> world" where
  "initializeQueue w = (case emailQueue w of Some q \<Rightarrow> w | None \<Rightarrow> w\<lparr>emailQueue := Some []\<rparr>)"


definition queue_backoff_delay :: int where
  "queue_backoff_delay = 2000"

text \<open>
  \<open>queue.add\<close> with a custom job id: the queue ignores a job whose id it already holds.
\<close>

definition queue_add :: "bull_job \<Rightarrow> bull_job list \<Rightarrow> bull_job list" where
  "queue_add j q = (if bj_id j \<in> set (map bj_id q) then q else q @ [j])"

text \<open>
  \<open>scheduleEmailJob\<close>: \<open>getQueue\<close> throws when the queue was never initialised; the delay
  handed to the queue is \<open>Math.max(0, scheduledTime - Date.now())\<close>. The job id is built
  from a second \<open>Date.now()\<close>, which is taken to give the same instant.
\<close>

definition scheduleEmailJob :: "int \<Rightarrow> EmailJobData \<Rightarrow> world \<Rightarrow> bull_id signal \<times> world" where
  "scheduleEmailJob now data w =
     (case emailQueue w of
        None \<Rightarrow> (Throw (ErrorObj ''Queue not initialized. Call initializeQueue() first.''), w)
      | Some queue \<Rightarrow>
          (let delay = scheduledTime data - now;
               job = \<lparr>bj_name = ''email-'' @ recipient data,
                      bj_data = data,
                      bj_delay = max 0 delay,
                      bj_id = (scheduleId data, recipient data, now)\<rparr>
           in (Return (bj_id job), w\<lparr>emailQueue := Some (queue_add job queue)\<rparr>)))"

text \<open>What the processor returns: nothing after \<open>moveToDelayed\<close>, or the message id.\<close>

datatype job_return = Undefined | SendOk "string option"

definition worker_sender :: string where
  "worker_sender = ''noreply@reachinbox.app''"

text \<open>
  The instants at which one run of the processor reads the clock, one for each place of
  the code that does: \<open>getHourWindow()\<close> in \<open>checkRateLimit\<close>; \<open>Date.now()\<close> for
  \<open>delayMs\<close>; \<open>getHourWindow()\<close> in \<open>incrementRateLimit\<close>; \<open>new Date()\<close> for \<open>sentTime\<close>;
  \<open>updatedAt\<close> in the \<open>updateEmailJobStatus\<close> of the \<open>try\<close> block; \<open>updatedAt\<close> in
  \<open>updateScheduleCounts\<close>; \<open>updatedAt\<close> in the \<open>updateEmailJobStatus\<close> of the \<open>catch\<close>
  block. (The \<open>try\<close> block calls \<open>updateEmailJobStatus\<close> and \<open>updateScheduleCounts\<close> in
  two places each, of which a run reaches one.)
\<close>

record run_clock =
  at_check :: int
  at_delay :: int
  at_increment :: int
  at_sent :: int
  at_update :: int
  at_recount :: int
  at_catch :: int

text \<open>
  The \<open>try\<close> block of the processor the worker runs for a job. When the limit is
  reached the job is moved to the delayed set only if the next window still lies ahead
  at the second reading of the clock; otherwise the run goes on to send. The job row is
  looked up and written under the key \<open>job.data.scheduleId\<close>.
\<close>

definition processBody ::
  "config \<Rightarrow> (mail_options \<Rightarrow> mail_outcome) option \<Rightarrow> run_clock \<Rightarrow> EmailJobData \<Rightarrow> world \<Rightarrow>
   job_return signal \<times> world" where
  "processBody cfg transporter clk data w =
     (let sender = worker_sender;
          (rateLimitCheck, w1) = checkRateLimit (at_check clk) sender (MAX_EMAILS_PER_HOUR cfg) w;
          delayMs = nextWindowTime rateLimitCheck - at_delay clk
      in if \<not> canSend rateLimitCheck \<and> delayMs > 0
         then (Return Undefined, emit (MovedToDelayed delayMs) w1)
         else
           (case sendEmail transporter (recipient data) (subject data) (body data)
                   sender (attachments data) w1 of
              (Throw e, w2) \<Rightarrow> (Throw e, w2)
            | (Return result, w2) \<Rightarrow>
               if success result
               then
                 (let (newCount, w3) = incrementRateLimit (at_increment clk) sender w2;
                      (upd, w4) =
                        (case findUnique (emailJob_tbl w3) (scheduleId data) of
                           None \<Rightarrow> (Return (), w3)
                         | Some emailJob \<Rightarrow>
                             updateEmailJobStatus (at_update clk) (scheduleId data) Sent
                               \<lparr>sentTime = Some (at_sent clk), errorMessage = None\<rparr> w3)
                  in case upd of
                       Throw e \<Rightarrow> (Throw e, w4)
                     | Return _ \<Rightarrow>
                         (let w5 = emit (Slept (DELAY_BETWEEN_EMAILS_MS cfg)) w4;
                              w6 = updateScheduleCounts (at_recount clk) (scheduleId data) w5
                          in (Return (SendOk (messageId result)), w6)))
               else
                 (let (upd, w3) =
                        (case findUnique (emailJob_tbl w2) (scheduleId data) of
                           None \<Rightarrow> (Return (), w2)
                         | Some emailJob \<Rightarrow>
                             updateEmailJobStatus (at_update clk) (scheduleId data) Failed
                               \<lparr>sentTime = None, errorMessage = error result\<rparr> w2)
                  in case upd of
                       Throw e \<Rightarrow> (Throw e, w3)
                     | Return _ \<Rightarrow>
                         (let w4 = updateScheduleCounts (at_recount clk) (scheduleId data) w3
                          in (Throw (ErrorObj
                                (case error result of
                                   None \<Rightarrow> ''Failed to send email''
                                 | Some m \<Rightarrow> if m = [] then ''Failed to send email'' else m)),
                              w4)))))"

text \<open>
  The processor: the \<open>catch\<close> block marks the row failed with the message of what was
  thrown, and throws it again, which is how the queue learns that the attempt failed.
\<close>

definition processJob ::
  "config \<Rightarrow> (mail_options \<Rightarrow> mail_outcome) option \<Rightarrow> run_clock \<Rightarrow> EmailJobData \<Rightarrow> world \<Rightarrow>
   job_return signal \<times> world" where
  "processJob cfg transporter clk data w =
     (case processBody cfg transporter clk data w of
        (Return r, w') \<Rightarrow> (Return r, w')
      | (Throw e, w') \<Rightarrow>
          (let errMsg = error_message e;
               (upd, w'') =
                 (case findUnique (emailJob_tbl w') (scheduleId data) of
                    None \<Rightarrow> (Return (), w')
                  | Some emailJob \<Rightarrow>
                      updateEmailJobStatus (at_catch clk) (scheduleId data) Failed
                        \<lparr>sentTime = None, errorMessage = Some errMsg\<rparr> w')
           in case upd of
                Throw e' \<Rightarrow> (Throw e', w'')
              | Return _ \<Rightarrow> (Throw e, w'')))"



section \<open>Scheduling controller\<close>

text \<open>
  White space as \<open>String.prototype.trim\<close> and the class \<open>\s\<close> know it, among the code
  units of the model: TAB, LF, VT, FF, CR, SPACE and NBSP.
\<close>

definition is_space :: "char \<Rightarrow> bool" where
  "is_space c =
     (c \<in> set [CHR 0x09, CHR 0x0A, CHR 0x0B, CHR 0x0C, CHR 0x0D, CHR 0x20, CHR 0xA0])"

definition trim :: "string \<Rightarrow> string" where
  "trim s = rev (dropWhile is_space (rev (dropWhile is_space s)))"

text \<open>
  \<open>emailRegex.test\<close> for \<open>/^[^\s@]+@[^\s@]+\.[^\s@]+$/\<close>: a non-empty local part up to
  the only \<open>@\<close>, then a domain with a dot that is neither its first nor its last
  character; no white space anywhere.
\<close>

definition emailRegex_test :: "string \<Rightarrow> bool" where
  "emailRegex_test s =
     (let localPart = takeWhile (\<lambda>c. c \<noteq> CHR ''@'') s;
          rest = dropWhile (\<lambda>c. c \<noteq> CHR ''@'') s
      in localPart \<noteq> [] \<and> list_all (\<lambda>c. \<not> is_space c) localPart \<and>
         (case rest of
            [] \<Rightarrow> False
          | at # domain \<Rightarrow>
              list_all (\<lambda>c. c \<noteq> CHR ''@'' \<and> \<not> is_space c) domain \<and>
              CHR ''.'' \<in> set (tl (butlast domain))))"

datatype start_time = StartMissing | StartInvalid | StartAt int

text \<open>
  The request: the \<open>x-user-id\<close> header and the fields of the JSON body. \<open>None\<close> is a field
  that is absent; \<open>req_startTime\<close> is absent, unparseable (\<open>new Date\<close> gives \<open>NaN\<close>), or
  an instant.
\<close>

record schedule_request =
  hdr_userId :: "string option"
  req_subject :: "string option"
  req_body :: "string option"
  req_recipients :: "string list option"
  req_startTime :: start_time
  req_delayMs :: "int option"
  req_hourlyLimit :: "int option"
  req_attachments :: "attachment list option"

record created_body =
  rs_scheduleId :: string
  rs_totalEmails :: nat
  rs_status :: string
  rs_createdJobs :: nat

datatype response =
    Unauthorized string
  | BadRequest string
  | Created created_body
  | ServerError string string

definition falsy :: "string option \<Rightarrow> bool" where
  "falsy s = (case s of None \<Rightarrow> True | Some v \<Rightarrow> v = [])"

fun join :: "string \<Rightarrow> string list \<Rightarrow> string" where
  "join sep [] = []"
| "join sep [x] = x"
| "join sep (x # y # ys) = x @ sep @ join sep (y # ys)"

text \<open>Prisma's \<open>create\<close> throws when the primary key is taken.\<close>

definition create_row :: "'k \<Rightarrow> 'v \<Rightarrow> ('k \<times> 'v) list \<Rightarrow> ('k \<times> 'v) list option" where
  "create_row k v tbl = (case map_of tbl k of None \<Rightarrow> Some (tbl @ [(k, v)]) | Some _ \<Rightarrow> None)"

definition upsert_user :: "string \<Rightarrow> world \<Rightarrow> world" where
  "upsert_user uid w =
     (case map_of (user_tbl w) uid of
        Some _ \<Rightarrow> w
      | None \<Rightarrow>
          w\<lparr>user_tbl := user_tbl w @
               [(uid, \<lparr>us_email = uid, us_name = takeWhile (\<lambda>c. c \<noteq> CHR ''@'') uid\<rparr>)]\<rparr>)"

text \<open>
  The loop over \<open>validRecipients\<close>: \<open>i\<close> is the loop index, \<open>created\<close> the length of
  \<open>createdJobs\<close>. \<open>uuid k\<close> is the \<open>k\<close>-th value \<open>uuidv4()\<close> returns during the request
  (the schedule takes \<open>uuid 0\<close>), \<open>clock i\<close> the instant of iteration \<open>i\<close>. A failure of
  \<open>scheduleEmailJob\<close> is caught inside the loop; a failure of \<open>emailJob.create\<close> is not.
\<close>

fun createJobs ::
  "(nat \<Rightarrow> string) \<Rightarrow> (nat \<Rightarrow> int) \<Rightarrow> int \<Rightarrow> int \<Rightarrow> EmailJobData \<Rightarrow> nat \<Rightarrow> string list \<Rightarrow>
   nat \<Rightarrow> world \<Rightarrow> nat signal \<times> world" where
  "createJobs uuid clock scheduleStartTime delayMs tmpl i [] created w = (Return created, w)"
| "createJobs uuid clock scheduleStartTime delayMs tmpl i (rcpt # rest) created w =
     (let schedTime = scheduleStartTime + int i * delayMs;
          emailJobId = uuid (Suc i);
          row = \<lparr>ej_scheduleId = scheduleId tmpl, ej_userId = userId tmpl,
                 ej_recipient = rcpt, ej_subject = subject tmpl, ej_body = body tmpl,
                 ej_scheduledTime = schedTime, ej_status = Pending, ej_sentTime = None,
                 ej_errorMessage = None, ej_jobId = None, ej_updatedAt = clock i\<rparr>
      in case create_row emailJobId row (emailJob_tbl w) of
           None \<Rightarrow> (Throw (ErrorObj ''Unique constraint failed on the fields: (id)''), w)
         | Some tbl \<Rightarrow>
             (let w1 = w\<lparr>emailJob_tbl := tbl\<rparr>;
                  data = tmpl\<lparr>recipient := rcpt, scheduledTime := schedTime\<rparr>
              in case scheduleEmailJob (clock i) data w1 of
                   (Return jobId, w2) \<Rightarrow>
                     createJobs uuid clock scheduleStartTime delayMs tmpl (Suc i) rest
                       (Suc created)
                       (w2\<lparr>emailJob_tbl :=
                            update_row emailJobId (\<lambda>r. r\<lparr>ej_jobId := Some jobId\<rparr>)
                              (emailJob_tbl w2)\<rparr>)
                 | (Throw e, w2) \<Rightarrow>
                     createJobs uuid clock scheduleStartTime delayMs tmpl (Suc i) rest
                       created w2))"

text \<open>\<open>scheduleEmails\<close>, the handler of \<open>POST /emails/schedule\<close>.\<close>

definition scheduleEmails ::
  "(nat \<Rightarrow> string) \<Rightarrow> (nat \<Rightarrow> int) \<Rightarrow> schedule_request \<Rightarrow> world \<Rightarrow> response \<times> world" where
  "scheduleEmails uuid clock req w =
     (let delayMs = (case req_delayMs req of None \<Rightarrow> 2000 | Some d \<Rightarrow> d);
          hourlyLimit = (case req_hourlyLimit req of None \<Rightarrow> 200 | Some h \<Rightarrow> h);
          atts = (case req_attachments req of None \<Rightarrow> [] | Some a \<Rightarrow> a)
      in if falsy (hdr_userId req) then (Unauthorized ''User ID required'', w)
         else if falsy (req_subject req) \<or> falsy (req_body req) \<or>
                 (case req_recipients req of None \<Rightarrow> True | Some rs \<Rightarrow> length rs = 0)
         then (BadRequest ''Missing required fields'', w)
         else
           (case req_startTime req of
              StartMissing \<Rightarrow> (BadRequest ''startTime is required'', w)
            | StartInvalid \<Rightarrow> (BadRequest ''Invalid startTime format'', w)
            | StartAt scheduleStartTime \<Rightarrow>
                (let uid = (case hdr_userId req of None \<Rightarrow> [] | Some u \<Rightarrow> u);
                     subj = (case req_subject req of None \<Rightarrow> [] | Some v \<Rightarrow> v);
                     bdy = (case req_body req of None \<Rightarrow> [] | Some v \<Rightarrow> v);
                     recipients = (case req_recipients req of None \<Rightarrow> [] | Some rs \<Rightarrow> rs);
                     invalidEmails = filter (\<lambda>email. \<not> emailRegex_test (trim email)) recipients
                 in if length invalidEmails > 0
                    then (BadRequest (''Invalid email addresses: '' @ join '', '' invalidEmails), w)
                    else
                      (let validRecipients = filter (\<lambda>e. e \<noteq> []) (map trim recipients);
                           w1 = upsert_user uid w;
                           sid = uuid 0;
                           schedule =
                             \<lparr>es_userId = uid, es_subject = subj, es_body = bdy,
                              es_recipients = validRecipients,
                              es_startTime = scheduleStartTime, es_delayMs = delayMs,
                              es_hourlyLimit = hourlyLimit,
                              es_totalCount = length validRecipients,
                              es_sentCount = 0, es_failedCount = 0, es_status = Scheduled,
                              es_updatedAt = clock 0\<rparr>
                       in case create_row sid schedule (emailSchedule_tbl w1) of
                            None \<Rightarrow>
                              (ServerError ''Failed to schedule emails''
                                 ''Unique constraint failed on the fields: (id)'', w1)
                          | Some tbl \<Rightarrow>
                              (let w2 = w1\<lparr>emailSchedule_tbl := tbl\<rparr>;
                                   tmpl = \<lparr>scheduleId = sid, userId = uid, recipient = [],
                                           subject = subj, body = bdy,
                                           scheduledTime = scheduleStartTime,
                                           attachments = atts\<rparr>
                               in case createJobs uuid clock scheduleStartTime delayMs tmpl 0
                                         validRecipients 0 w2 of
                                    (Throw e, w3) \<Rightarrow>
                                      (ServerError ''Failed to schedule emails''
                                         (error_message e), w3)
                                  | (Return createdJobs, w3) \<Rightarrow>
                                      (Created \<lparr>rs_scheduleId = sid,
                                                rs_totalEmails = length validRecipients,
                                                rs_status = ''scheduled'',
                                                rs_createdJobs = createdJobs\<rparr>, w3))))))"

section \<open>The states the system reaches\<close>

definition initial_world :: world where
  "initial_world =
     \<lparr>user_tbl = [], emailSchedule_tbl = [], emailJob_tbl = [],
      rateLimitCounter_tbl = Map.empty, redis = Map.empty, redis_ttl = Map.empty,
      emailQueue = None, trace = []\<rparr>"

text \<open>
  From the empty database: the queue is initialised, requests are handled, the worker
  runs jobs (any job data, any Mailer, any readings of the clock), and the rate counters are
  reset.
\<close>

inductive reachable :: "world \<Rightarrow> bool" where
  boot: "reachable initial_world"
| init_queue: "reachable w \<Longrightarrow> reachable (initializeQueue w)"
| submit: "reachable w \<Longrightarrow> scheduleEmails uuid clock req w = (resp, w') \<Longrightarrow> reachable w'"
| work: "reachable w \<Longrightarrow> processJob cfg transporter clk data w = (out, w') \<Longrightarrow> reachable w'"
| reset: "reachable w \<Longrightarrow> reachable (resetRateLimit now sender w)"

section \<open>The words of the specification\<close>

text \<open>
  Lower-casing of the letters A to Z, and the recipient list the specification describes:
  trimmed, and deduplicated by lowercase keeping the first occurrence.
\<close>

definition toLowerCase_char :: "char \<Rightarrow> char" where
  "toLowerCase_char c =
     (case map_of (zip ''ABCDEFGHIJKLMNOPQRSTUVWXYZ'' ''abcdefghijklmnopqrstuvwxyz'') c of
        Some l \<Rightarrow> l
      | None \<Rightarrow> c)"

definition toLowerCase :: "string \<Rightarrow> string" where
  "toLowerCase s = map toLowerCase_char s"

fun spec_dedup_by_lowercase :: "string list \<Rightarrow> string list \<Rightarrow> string list" where
  "spec_dedup_by_lowercase seen [] = []"
| "spec_dedup_by_lowercase seen (r # rs) =
     (if toLowerCase r \<in> set seen then spec_dedup_by_lowercase seen rs
      else r # spec_dedup_by_lowercase (toLowerCase r # seen) rs)"

definition spec_recipients :: "string list \<Rightarrow> string list" where
  "spec_recipients rs = spec_dedup_by_lowercase [] (map trim rs)"




section \<open>Notions used in the statements\<close>

text \<open>The events a run appended to the trace.\<close>

definition run_events :: "world \<Rightarrow> world \<Rightarrow> event list" where
  "run_events w w' = drop (length (trace w)) (trace w')"

text \<open>
  The test the processor makes on the answer of \<open>checkRateLimit\<close>: the limit is reached,
  and the next window lies ahead when the clock is read again.
\<close>

definition deferred :: "config \<Rightarrow> run_clock \<Rightarrow> world \<Rightarrow> bool" where
  "deferred cfg clk w =
     (let rl = fst (checkRateLimit (at_check clk) worker_sender (MAX_EMAILS_PER_HOUR cfg) w)
      in \<not> canSend rl \<and> nextWindowTime rl - at_delay clk > 0)"

text \<open>The message the processor hands to \<open>sendEmail\<close> for a job.\<close>

definition job_mail :: "EmailJobData \<Rightarrow> mail_options" where
  "job_mail data =
     \<lparr>mo_from = worker_sender, mo_to = recipient data, mo_subject = subject data,
      mo_text = body data, mo_attachments = attachments data\<rparr>"

text \<open>
  The processor's guarded write: \<open>findUnique\<close>, and \<open>updateEmailJobStatus\<close> if a row was
  found; and the event that write leaves.
\<close>

definition write_status :: "int \<Rightarrow> string \<Rightarrow> job_status \<Rightarrow> status_options \<Rightarrow> world \<Rightarrow> world" where
  "write_status now k st opts w =
     (case findUnique (emailJob_tbl w) k of
        None \<Rightarrow> w
      | Some _ \<Rightarrow> snd (updateEmailJobStatus now k st opts w))"

definition status_events :: "world \<Rightarrow> string \<Rightarrow> job_status \<Rightarrow> event list" where
  "status_events w k st =
     (case findUnique (emailJob_tbl w) k of None \<Rightarrow> [] | Some _ \<Rightarrow> [JobStatusWritten k st])"


text \<open>The message of the error the processor throws after a failed send.\<close>

definition failure_text :: "string \<Rightarrow> string" where
  "failure_text m = (if m = [] then ''Failed to send email'' else m)"

text \<open>The number of job rows of a schedule, and the invariant of the database.\<close>

definition job_count :: "string \<Rightarrow> world \<Rightarrow> nat" where
  "job_count sid w = length (filter (\<lambda>(k, r). ej_scheduleId r = sid) (emailJob_tbl w))"

text \<open>
  \<open>pending sid\<close> is the number of job rows a request in progress will still create for the
  schedule \<open>sid\<close>.
\<close>

definition store_inv_with :: "(string \<Rightarrow> nat) \<Rightarrow> world \<Rightarrow> bool" where
  "store_inv_with pending w =
     (distinct (map fst (emailSchedule_tbl w)) \<and>
      (\<forall>(sid, s) \<in> set (emailSchedule_tbl w).
         job_count sid w + pending sid \<le> es_totalCount s \<and>
         ((es_status s = Completed) = (es_sentCount s + es_failedCount s = es_totalCount s))) \<and>
      (\<forall>(k, r) \<in> set (emailJob_tbl w).
         ej_scheduleId r \<in> fst ` set (emailSchedule_tbl w) \<and>
         (ej_status r = Sent \<longrightarrow> ej_sentTime r \<noteq> None)))"

definition store_inv :: "world \<Rightarrow> bool" where
  "store_inv w = store_inv_with (\<lambda>sid. 0) w"


text \<open>
  The row iteration \<open>i\<close> of the loop of \<open>scheduleEmails\<close> creates for a recipient, and
  what it means that \<open>rows\<close> are the rows the loop created, in order, from index \<open>i\<close> on
  (the queue id of a row aside).
\<close>

definition job_row :: "(nat \<Rightarrow> int) \<Rightarrow> int \<Rightarrow> int \<Rightarrow> EmailJobData \<Rightarrow> nat \<Rightarrow> string \<Rightarrow> email_job_row" where
  "job_row clock scheduleStartTime delayMs tmpl i rcpt =
     \<lparr>ej_scheduleId = scheduleId tmpl, ej_userId = userId tmpl,
      ej_recipient = rcpt, ej_subject = subject tmpl, ej_body = body tmpl,
      ej_scheduledTime = scheduleStartTime + int i * delayMs, ej_status = Pending,
      ej_sentTime = None, ej_errorMessage = None, ej_jobId = None, ej_updatedAt = clock i\<rparr>"

definition rows_created ::
  "(nat \<Rightarrow> string) \<Rightarrow> (nat \<Rightarrow> int) \<Rightarrow> int \<Rightarrow> int \<Rightarrow> EmailJobData \<Rightarrow> nat \<Rightarrow> string list \<Rightarrow>
   (string \<times> email_job_row) list \<Rightarrow> bool" where
  "rows_created uuid clock start delayMs tmpl i rs rows =
     (length rows \<le> length rs \<and>
      (\<forall>k < length rows.
         fst (rows ! k) = uuid (Suc (i + k)) \<and>
         (snd (rows ! k))\<lparr>ej_jobId := None\<rparr> = job_row clock start delayMs tmpl (i + k) (rs ! k)))"

text \<open>
  The values \<open>scheduleEmails\<close> takes from a request: the delay and the user, the
  schedule row it creates and the payload its jobs share.
\<close>

definition request_delayMs :: "schedule_request \<Rightarrow> int" where
  "request_delayMs req = (case req_delayMs req of None \<Rightarrow> 2000 | Some d \<Rightarrow> d)"

definition request_user :: "schedule_request \<Rightarrow> string" where
  "request_user req = (case hdr_userId req of None \<Rightarrow> [] | Some u \<Rightarrow> u)"

definition new_schedule :: "(nat \<Rightarrow> int) \<Rightarrow> schedule_request \<Rightarrow> int \<Rightarrow> string list \<Rightarrow> email_schedule_row" where
  "new_schedule clock req start valid =
     \<lparr>es_userId = request_user req,
      es_subject = (case req_subject req of None \<Rightarrow> [] | Some v \<Rightarrow> v),
      es_body = (case req_body req of None \<Rightarrow> [] | Some v \<Rightarrow> v),
      es_recipients = valid,
      es_startTime = start, es_delayMs = request_delayMs req,
      es_hourlyLimit = (case req_hourlyLimit req of None \<Rightarrow> 200 | Some h \<Rightarrow> h),
      es_totalCount = length valid,
      es_sentCount = 0, es_failedCount = 0, es_status = Scheduled,
      es_updatedAt = clock 0\<rparr>"

definition new_template :: "(nat \<Rightarrow> string) \<Rightarrow> schedule_request \<Rightarrow> int \<Rightarrow> EmailJobData" where
  "new_template uuid req start =
     \<lparr>scheduleId = uuid 0, userId = request_user req, recipient = [],
      subject = (case req_subject req of None \<Rightarrow> [] | Some v \<Rightarrow> v),
      body = (case req_body req of None \<Rightarrow> [] | Some v \<Rightarrow> v),
      scheduledTime = start,
      attachments = (case req_attachments req of None \<Rightarrow> [] | Some a \<Rightarrow> a)\<rparr>"

section \<open>Concrete scenarios\<close>

definition job_a :: EmailJobData where
  "job_a = \<lparr>scheduleId = ''s1'', userId = ''u@x.io'', recipient = ''a@x.io'', subject = ''Hi'',
            body = ''Hello'', scheduledTime = 1000, attachments = []\<rparr>"

text \<open>
  The readings of the clock of a run that starts at \<open>t\<close>: a quarter of a second for the
  Mailer, the pacing sleep of two seconds before the recount.
\<close>

definition run_at :: "int \<Rightarrow> run_clock" where
  "run_at t =
     \<lparr>at_check = t, at_delay = t + 1, at_increment = t + 250, at_sent = t + 251,
      at_update = t + 252, at_recount = t + 2260, at_catch = t + 2261\<rparr>"

definition mailer_ok :: "mail_options \<Rightarrow> mail_outcome" where
  "mailer_ok mo = Accepted ''m1''"


text \<open>
  A database in which the Redis key of the hour is gone while the database row of the
  hour holds the count 7.
\<close>

definition world_evicted :: world where
  "world_evicted = initial_world\<lparr>rateLimitCounter_tbl := [(0, worker_sender) \<mapsto> 7]\<rparr>"



text \<open>
  An hour in which the global limit of 200 is reached, and a run that checks in the last
  millisecond of that hour and reads the clock for the delay when the hour has turned.
\<close>

definition world_full :: world where
  "world_full = initial_world\<lparr>redis := [(0, worker_sender) \<mapsto> 200]\<rparr>"

definition clock_turn :: run_clock where
  "clock_turn = (run_at 3599999)\<lparr>at_delay := 3600000\<rparr>"

text \<open>A Mailer that throws an \<open>Error\<close> with an empty message.\<close>

definition mailer_silent :: "mail_options \<Rightarrow> mail_outcome" where
  "mailer_silent mo = Rejected TransientTransport (ErrorObj [])"

text \<open>
  A request with one recipient; identifiers as \<open>uuidv4\<close> may return them (\<open>uuid_a\<close>), and
  the case in which it returns the same value for the schedule and for its job row
  (\<open>uuid_same\<close>: the two live in different tables). The states after the request, and
  after the worker has run the job with a Mailer that accepts.
\<close>

definition req_a :: schedule_request where
  "req_a = \<lparr>hdr_userId = Some ''u@x.io'', req_subject = Some ''Hi'', req_body = Some ''Hello'',
            req_recipients = Some [''a@x.io''], req_startTime = StartAt 1000,
            req_delayMs = None, req_hourlyLimit = None, req_attachments = None\<rparr>"

definition uuid_a :: "nat \<Rightarrow> string" where
  "uuid_a k = (if k = 0 then ''s1'' else if k = 1 then ''j1'' else ''j2'')"

definition uuid_same :: "nat \<Rightarrow> string" where
  "uuid_same k = ''s1''"

definition clock_a :: "nat \<Rightarrow> int" where
  "clock_a i = 500 + int i"

definition world_submitted :: world where
  "world_submitted = snd (scheduleEmails uuid_a clock_a req_a (initializeQueue initial_world))"

definition world_processed :: world where
  "world_processed = snd (processJob default_config (Some mailer_ok) (run_at 1000) job_a world_submitted)"

definition world_submitted_same :: world where
  "world_submitted_same = snd (scheduleEmails uuid_same clock_a req_a (initializeQueue initial_world))"

definition world_processed_same :: world where
  "world_processed_same =
     snd (processJob default_config (Some mailer_ok) (run_at 1000) job_a world_submitted_same)"

text \<open>A request that names one address twice, differing in case and surrounding blanks.\<close>

definition req_dup :: schedule_request where
  "req_dup = req_a\<lparr>req_recipients := Some [''a@x.io'', '' A@x.io '']\<rparr>"

definition world_dup :: world where
  "world_dup = snd (scheduleEmails uuid_a clock_a req_dup (initializeQueue initial_world))"

section \<open>Tables and frames\<close>

lemma findUnique_update_row:
  "findUnique (update_row k f tbl) k' =
     (if k' = k then map_option f (findUnique tbl k) else findUnique tbl k')"
  by (induction tbl) (auto simp: findUnique_def update_row_def)

lemma keys_update_row: "map fst (update_row k f tbl) = map fst tbl"
  by (induction tbl) (auto simp: update_row_def)

lemma trace_emit: "trace (emit e w) = trace w @ [e]"
  by (simp add: emit_def)

lemma snd_checkRateLimit: "snd (checkRateLimit now s l w) = emit (RateLimitChecked s l) w"
  by (simp add: checkRateLimit_def Let_def)

lemma guarded_update:
  "(case findUnique (emailJob_tbl w) k of
      None \<Rightarrow> (Return (), w)
    | Some emailJob \<Rightarrow> updateEmailJobStatus now k st opts w) =
   (Return (), write_status now k st opts w)"
  by (simp add: write_status_def updateEmailJobStatus_def split: option.splits)

lemma sendEmail_None:
  "sendEmail None rcpt subj bdy sender atts w =
     (Return \<lparr>success = False, messageId = None,
       error = Some ''Email transporter not initialized. Call initializeEmailTransporter() first.''\<rparr>, w)"
  by (simp add: sendEmail_def sendEmail_try_def error_message_def)

lemma sendEmail_Accepted:
  "sendMail \<lparr>mo_from = sender, mo_to = rcpt, mo_subject = subj, mo_text = bdy, mo_attachments = atts\<rparr> = Accepted mid \<Longrightarrow>
   sendEmail (Some sendMail) rcpt subj bdy sender atts w =
     (Return \<lparr>success = True, messageId = Some mid, error = None\<rparr>,
      emit (MailerCalled \<lparr>mo_from = sender, mo_to = rcpt, mo_subject = subj, mo_text = bdy, mo_attachments = atts\<rparr>) w)"
  by (simp add: sendEmail_def sendEmail_try_def Let_def)

lemma sendEmail_Rejected:
  "sendMail \<lparr>mo_from = sender, mo_to = rcpt, mo_subject = subj, mo_text = bdy, mo_attachments = atts\<rparr> = Rejected kind e \<Longrightarrow>
   sendEmail (Some sendMail) rcpt subj bdy sender atts w =
     (Return \<lparr>success = False, messageId = None, error = Some (error_message e)\<rparr>,
      emit (MailerCalled \<lparr>mo_from = sender, mo_to = rcpt, mo_subject = subj, mo_text = bdy, mo_attachments = atts\<rparr>) w)"
  by (simp add: sendEmail_def sendEmail_try_def Let_def)

lemma sendEmail_returns: "\<exists>r w'. sendEmail tr rcpt subj bdy sender atts w = (Return r, w')"
  by (simp add: sendEmail_def split: prod.splits signal.splits)

lemma processBody_deferred:
  "deferred cfg clk w \<Longrightarrow>
   processBody cfg tr clk data w =
     (Return Undefined,
      emit (MovedToDelayed
              (nextWindowTime (fst (checkRateLimit (at_check clk) worker_sender (MAX_EMAILS_PER_HOUR cfg) w)) -
               at_delay clk))
        (emit (RateLimitChecked worker_sender (MAX_EMAILS_PER_HOUR cfg)) w))"
  unfolding processBody_def deferred_def
  by (simp add: Let_def split_beta snd_checkRateLimit)

lemma processBody_sent:
  "\<not> deferred cfg clk w \<Longrightarrow> sendMail (job_mail data) = Accepted mid \<Longrightarrow>
   processBody cfg (Some sendMail) clk data w =
     (Return (SendOk (Some mid)),
      updateScheduleCounts (at_recount clk) (scheduleId data)
        (emit (Slept (DELAY_BETWEEN_EMAILS_MS cfg))
          (write_status (at_update clk) (scheduleId data) Sent
             \<lparr>sentTime = Some (at_sent clk), errorMessage = None\<rparr>
            (snd (incrementRateLimit (at_increment clk) worker_sender
              (emit (MailerCalled (job_mail data))
                (emit (RateLimitChecked worker_sender (MAX_EMAILS_PER_HOUR cfg)) w)))))))"
  unfolding processBody_def deferred_def
  by (simp add: Let_def split_beta snd_checkRateLimit guarded_update sendEmail_def
        sendEmail_try_def job_mail_def)

lemma processBody_rejected:
  "\<not> deferred cfg clk w \<Longrightarrow> sendMail (job_mail data) = Rejected kind e \<Longrightarrow>
   processBody cfg (Some sendMail) clk data w =
     (Throw (ErrorObj (failure_text (error_message e))),
      updateScheduleCounts (at_recount clk) (scheduleId data)
        (write_status (at_update clk) (scheduleId data) Failed
           \<lparr>sentTime = None, errorMessage = Some (error_message e)\<rparr>
           (emit (MailerCalled (job_mail data))
              (emit (RateLimitChecked worker_sender (MAX_EMAILS_PER_HOUR cfg)) w))))"
  unfolding processBody_def deferred_def
  by (simp add: Let_def split_beta snd_checkRateLimit guarded_update sendEmail_def
        sendEmail_try_def job_mail_def failure_text_def)

lemma processBody_no_transporter:
  "\<not> deferred cfg clk w \<Longrightarrow>
   processBody cfg None clk data w =
     (Throw (ErrorObj ''Email transporter not initialized. Call initializeEmailTransporter() first.''),
      updateScheduleCounts (at_recount clk) (scheduleId data)
        (write_status (at_update clk) (scheduleId data) Failed
           \<lparr>sentTime = None, errorMessage = Some ''Email transporter not initialized. Call initializeEmailTransporter() first.''\<rparr>
           (emit (RateLimitChecked worker_sender (MAX_EMAILS_PER_HOUR cfg)) w)))"
  unfolding processBody_def deferred_def
  by (simp add: Let_def split_beta snd_checkRateLimit guarded_update sendEmail_None)

lemma processJob_catch:
  "processJob cfg tr clk data w =
     (case processBody cfg tr clk data w of
        (Return r, w') \<Rightarrow> (Return r, w')
      | (Throw e, w') \<Rightarrow>
          (Throw e, write_status (at_catch clk) (scheduleId data) Failed
                      \<lparr>sentTime = None, errorMessage = Some (error_message e)\<rparr> w'))"
  unfolding processJob_def
  by (simp add: Let_def guarded_update split: prod.splits signal.splits)

lemma incrementRateLimit_frame:
  "trace (snd (incrementRateLimit now s w)) = trace w @ [RateLimitIncremented s]"
  "emailJob_tbl (snd (incrementRateLimit now s w)) = emailJob_tbl w"
  "emailSchedule_tbl (snd (incrementRateLimit now s w)) = emailSchedule_tbl w"
  by (simp_all add: incrementRateLimit_def Let_def emit_def)

lemma emit_frame:
  "emailJob_tbl (emit e w) = emailJob_tbl w"
  "emailSchedule_tbl (emit e w) = emailSchedule_tbl w"
  "redis (emit e w) = redis w"
  "rateLimitCounter_tbl (emit e w) = rateLimitCounter_tbl w"
  by (simp_all add: emit_def)

lemma write_status_frame:
  "trace (write_status now k st opts w) = trace w @ status_events w k st"
  "emailSchedule_tbl (write_status now k st opts w) = emailSchedule_tbl w"
  "redis (write_status now k st opts w) = redis w"
  "rateLimitCounter_tbl (write_status now k st opts w) = rateLimitCounter_tbl w"
  by (simp_all add: write_status_def status_events_def updateEmailJobStatus_def emit_def
        split: option.splits)

lemma update_row_absent: "k \<notin> fst ` set tbl \<Longrightarrow> update_row k f tbl = tbl"
  by (induction tbl) (auto simp: update_row_def)

lemma write_status_tbl:
  "emailJob_tbl (write_status now k st opts w) =
     update_row k
       (\<lambda>r. r\<lparr>ej_status := st,
               ej_sentTime := (case sentTime opts of Some t \<Rightarrow> Some t | None \<Rightarrow> ej_sentTime r),
               ej_errorMessage := (case errorMessage opts of
                                     Some m \<Rightarrow> Some m | None \<Rightarrow> ej_errorMessage r),
               ej_updatedAt := now\<rparr>)
       (emailJob_tbl w)"
proof (cases "findUnique (emailJob_tbl w) k")
  case None
  then have "k \<notin> fst ` set (emailJob_tbl w)"
    by (simp add: findUnique_def map_of_eq_None_iff)
  then have "update_row k f (emailJob_tbl w) = emailJob_tbl w" for f
    by (rule update_row_absent)
  with None show ?thesis by (simp add: write_status_def)
next
  case (Some r)
  then show ?thesis by (simp add: write_status_def updateEmailJobStatus_def emit_def)
qed

lemma updateScheduleCounts_frame:
  "trace (updateScheduleCounts now sid w) = trace w @ [CountsRecomputed sid]"
  "emailJob_tbl (updateScheduleCounts now sid w) = emailJob_tbl w"
  "redis (updateScheduleCounts now sid w) = redis w"
  "rateLimitCounter_tbl (updateScheduleCounts now sid w) = rateLimitCounter_tbl w"
  by (simp_all add: updateScheduleCounts_def Let_def emit_def split: option.splits)

lemma status_events_cong:
  "map fst (emailJob_tbl w') = map fst (emailJob_tbl w) \<Longrightarrow> status_events w' k st = status_events w k st"
proof -
  assume "map fst (emailJob_tbl w') = map fst (emailJob_tbl w)"
  then have "fst ` set (emailJob_tbl w') = fst ` set (emailJob_tbl w)"
    by (metis list.set_map)
  then have "(findUnique (emailJob_tbl w') k = None) = (findUnique (emailJob_tbl w) k = None)"
    by (simp add: findUnique_def map_of_eq_None_iff)
  then show ?thesis
    by (auto simp: status_events_def split: option.splits)
qed

lemma keys_write_status:
  "map fst (emailJob_tbl (write_status now k st opts w)) = map fst (emailJob_tbl w)"
  by (simp add: write_status_tbl keys_update_row)

section \<open>What a run of the processor does\<close>

lemma processJob_deferred:
  "deferred cfg clk w \<Longrightarrow>
   processJob cfg tr clk data w =
     (Return Undefined,
      emit (MovedToDelayed
              (nextWindowTime (fst (checkRateLimit (at_check clk) worker_sender (MAX_EMAILS_PER_HOUR cfg) w)) -
               at_delay clk))
        (emit (RateLimitChecked worker_sender (MAX_EMAILS_PER_HOUR cfg)) w))"
  by (simp add: processJob_catch processBody_deferred)

lemma processJob_sent:
  "\<not> deferred cfg clk w \<Longrightarrow> sendMail (job_mail data) = Accepted mid \<Longrightarrow>
   processJob cfg (Some sendMail) clk data w =
     (Return (SendOk (Some mid)),
      updateScheduleCounts (at_recount clk) (scheduleId data)
        (emit (Slept (DELAY_BETWEEN_EMAILS_MS cfg))
          (write_status (at_update clk) (scheduleId data) Sent
             \<lparr>sentTime = Some (at_sent clk), errorMessage = None\<rparr>
            (snd (incrementRateLimit (at_increment clk) worker_sender
              (emit (MailerCalled (job_mail data))
                (emit (RateLimitChecked worker_sender (MAX_EMAILS_PER_HOUR cfg)) w)))))))"
  by (simp add: processJob_catch processBody_sent)

lemma processJob_rejected:
  "\<not> deferred cfg clk w \<Longrightarrow> sendMail (job_mail data) = Rejected kind e \<Longrightarrow>
   processJob cfg (Some sendMail) clk data w =
     (Throw (ErrorObj (failure_text (error_message e))),
      write_status (at_catch clk) (scheduleId data) Failed
        \<lparr>sentTime = None, errorMessage = Some (failure_text (error_message e))\<rparr>
        (updateScheduleCounts (at_recount clk) (scheduleId data)
          (write_status (at_update clk) (scheduleId data) Failed
             \<lparr>sentTime = None, errorMessage = Some (error_message e)\<rparr>
             (emit (MailerCalled (job_mail data))
                (emit (RateLimitChecked worker_sender (MAX_EMAILS_PER_HOUR cfg)) w)))))"
  by (simp add: processJob_catch processBody_rejected error_message_def)

lemma processJob_no_transporter:
  "\<not> deferred cfg clk w \<Longrightarrow>
   processJob cfg None clk data w =
     (Throw (ErrorObj ''Email transporter not initialized. Call initializeEmailTransporter() first.''),
      write_status (at_catch clk) (scheduleId data) Failed
        \<lparr>sentTime = None, errorMessage = Some ''Email transporter not initialized. Call initializeEmailTransporter() first.''\<rparr>
        (updateScheduleCounts (at_recount clk) (scheduleId data)
          (write_status (at_update clk) (scheduleId data) Failed
             \<lparr>sentTime = None, errorMessage = Some ''Email transporter not initialized. Call initializeEmailTransporter() first.''\<rparr>
             (emit (RateLimitChecked worker_sender (MAX_EMAILS_PER_HOUR cfg)) w))))"
  by (simp add: processJob_catch processBody_no_transporter error_message_def)

lemmas frame_simps = incrementRateLimit_frame emit_frame write_status_frame
  updateScheduleCounts_frame trace_emit keys_write_status

lemma status_events_after [simp]:
  "status_events (emit e w) k st = status_events w k st"
  "status_events (snd (incrementRateLimit now s w)) k st = status_events w k st"
  "status_events (updateScheduleCounts now sid w) k st = status_events w k st"
  "status_events (write_status now k' st' opts w) k st = status_events w k st"
  by (rule status_events_cong, simp add: frame_simps)+


lemma events_sent:
  "\<not> deferred cfg clk w \<Longrightarrow> sendMail (job_mail data) = Accepted mid \<Longrightarrow>
   run_events w (snd (processJob cfg (Some sendMail) clk data w)) =
     [RateLimitChecked worker_sender (MAX_EMAILS_PER_HOUR cfg), MailerCalled (job_mail data),
      RateLimitIncremented worker_sender] @
     status_events w (scheduleId data) Sent @
     [Slept (DELAY_BETWEEN_EMAILS_MS cfg), CountsRecomputed (scheduleId data)]"
  by (simp add: processJob_sent run_events_def frame_simps)





lemma next_window_ahead: "getNextHourWindow (getHourWindow now) - now > 0"
proof -
  have "now mod 3600000 < 3600000" by simp
  moreover have "now = now div 3600000 * 3600000 + now mod 3600000" by simp
  ultimately show ?thesis
    unfolding getNextHourWindow_def getHourWindow_def by linarith
qed


lemma deferred_same_instant:
  "at_delay clk = at_check clk \<Longrightarrow>
   deferred cfg clk w =
     (MAX_EMAILS_PER_HOUR cfg \<le>
        currentCount (fst (checkRateLimit (at_check clk) worker_sender (MAX_EMAILS_PER_HOUR cfg) w)))"
  using next_window_ahead [of "at_check clk"]
  by (auto simp: deferred_def checkRateLimit_def Let_def)






lemma not_deferred_empty:
  "redis w (getHourWindow (at_check clk), worker_sender) = None \<Longrightarrow>
   rateLimitCounter_tbl w (getHourWindow (at_check clk), worker_sender) = None \<Longrightarrow>
   0 < MAX_EMAILS_PER_HOUR cfg \<Longrightarrow> \<not> deferred cfg clk w"
  by (simp add: deferred_def checkRateLimit_def Let_def)

lemma check_increment_check_general:
  "currentCount (fst (checkRateLimit now s l (snd (incrementRateLimit now s (snd (checkRateLimit now s l w)))))) =
     (case redis w (getHourWindow now, s) of
        Some c \<Rightarrow> currentCount (fst (checkRateLimit now s l w)) + 1
      | None \<Rightarrow> 1)"
  by (simp add: checkRateLimit_def incrementRateLimit_def emit_def Let_def split: option.splits)





lemma status_event_mem:
  "(JobStatusWritten k st \<in> set (status_events w k' st')) =
     (k = k' \<and> st = st' \<and> findUnique (emailJob_tbl w) k' \<noteq> None)"
  by (cases "findUnique (emailJob_tbl w) k'") (auto simp: status_events_def)

lemma emailJob_tbl_processJob:
  assumes "findUnique (emailJob_tbl w) (scheduleId data) = None"
  shows "emailJob_tbl (snd (processJob cfg tr clk data w)) = emailJob_tbl w"
proof -
  have k: "scheduleId data \<notin> fst ` set (emailJob_tbl w)"
    using assms by (simp add: findUnique_def map_of_eq_None_iff)
  have u: "update_row (scheduleId data) f (emailJob_tbl w) = emailJob_tbl w" for f
    using k by (rule update_row_absent)
  show ?thesis
  proof (cases "deferred cfg clk w")
    case True
    then show ?thesis by (simp add: processJob_deferred emit_frame)
  next
    case False
    show ?thesis
    proof (cases tr)
      case None
      with False show ?thesis
        by (simp add: processJob_no_transporter updateScheduleCounts_frame emit_frame
              write_status_tbl u)
    next
      case (Some sendMail)
      with False show ?thesis
        by (cases "sendMail (job_mail data)")
           (simp_all add: processJob_sent processJob_rejected updateScheduleCounts_frame
              emit_frame write_status_tbl incrementRateLimit_frame u)
    qed
  qed
qed

section \<open>The invariant of the database\<close>

lemma store_inv_withI:
  assumes "distinct (map fst (emailSchedule_tbl w))"
      and "\<And>sid s. (sid, s) \<in> set (emailSchedule_tbl w) \<Longrightarrow>
             job_count sid w + p sid \<le> es_totalCount s"
      and "\<And>sid s. (sid, s) \<in> set (emailSchedule_tbl w) \<Longrightarrow>
             (es_status s = Completed) = (es_sentCount s + es_failedCount s = es_totalCount s)"
      and "\<And>k r. (k, r) \<in> set (emailJob_tbl w) \<Longrightarrow>
             ej_scheduleId r \<in> fst ` set (emailSchedule_tbl w)"
      and "\<And>k r. (k, r) \<in> set (emailJob_tbl w) \<Longrightarrow> ej_status r = Sent \<Longrightarrow>
             ej_sentTime r \<noteq> None"
  shows "store_inv_with p w"
  unfolding store_inv_with_def using assms by blast

lemma store_inv_withD:
  assumes "store_inv_with p w"
  shows "distinct (map fst (emailSchedule_tbl w))"
    and "\<And>sid s. (sid, s) \<in> set (emailSchedule_tbl w) \<Longrightarrow>
             job_count sid w + p sid \<le> es_totalCount s"
    and "\<And>sid s. (sid, s) \<in> set (emailSchedule_tbl w) \<Longrightarrow>
             (es_status s = Completed) = (es_sentCount s + es_failedCount s = es_totalCount s)"
    and "\<And>k r. (k, r) \<in> set (emailJob_tbl w) \<Longrightarrow>
             ej_scheduleId r \<in> fst ` set (emailSchedule_tbl w)"
    and "\<And>k r. (k, r) \<in> set (emailJob_tbl w) \<Longrightarrow> ej_status r = Sent \<Longrightarrow>
             ej_sentTime r \<noteq> None"
  using assms unfolding store_inv_with_def by blast+

lemma store_inv_with_cong:
  "emailSchedule_tbl w' = emailSchedule_tbl w \<Longrightarrow> emailJob_tbl w' = emailJob_tbl w \<Longrightarrow>
   store_inv_with p w' = store_inv_with p w"
  by (simp add: store_inv_with_def job_count_def)

lemma set_update_row:
  "(k', v') \<in> set (update_row k f tbl) \<Longrightarrow>
   (k' \<noteq> k \<and> (k', v') \<in> set tbl) \<or> (k' = k \<and> (\<exists>v. (k, v) \<in> set tbl \<and> v' = f v))"
  by (induction tbl) (auto simp: update_row_def split: if_splits)

lemma in_update_rowE:
  assumes "(k', v') \<in> set (update_row k f tbl)"
  obtains (Other) "(k', v') \<in> set tbl" "k' \<noteq> k"
        | (Hit) v where "k' = k" "(k, v) \<in> set tbl" "v' = f v"
  using set_update_row [OF assms] by blast

lemma count_update_row:
  "(\<And>r. ej_scheduleId (f r) = ej_scheduleId r) \<Longrightarrow>
   length (filter (\<lambda>(k, r). ej_scheduleId r = sid) (update_row k f tbl)) =
   length (filter (\<lambda>(k, r). ej_scheduleId r = sid) tbl)"
  by (induction tbl) (auto simp: update_row_def split: if_splits)

lemma job_count_write_status:
  "job_count sid (write_status now k st opts w) = job_count sid w"
  unfolding job_count_def write_status_tbl by (rule count_update_row) simp

lemma store_inv_write_status:
  assumes inv: "store_inv_with p w" and ok: "st = Sent \<longrightarrow> sentTime opts \<noteq> None"
  shows "store_inv_with p (write_status now k st opts w)"
proof (rule store_inv_withI)
  note D = store_inv_withD [OF inv]
  show "distinct (map fst (emailSchedule_tbl (write_status now k st opts w)))"
    using D(1) by (simp add: write_status_frame)
  show "job_count sid (write_status now k st opts w) + p sid \<le> es_totalCount s"
    if "(sid, s) \<in> set (emailSchedule_tbl (write_status now k st opts w))" for sid s
    using that D(2) by (simp add: write_status_frame job_count_write_status)
  show "(es_status s = Completed) = (es_sentCount s + es_failedCount s = es_totalCount s)"
    if "(sid, s) \<in> set (emailSchedule_tbl (write_status now k st opts w))" for sid s
    using that D(3) by (simp add: write_status_frame)
  have rows: "ej_scheduleId r \<in> fst ` set (emailSchedule_tbl w) \<and>
              (ej_status r = Sent \<longrightarrow> ej_sentTime r \<noteq> None)"
    if "(k', r) \<in> set (emailJob_tbl (write_status now k st opts w))" for k' r
  proof -
    from that [unfolded write_status_tbl] show ?thesis
    proof (cases rule: in_update_rowE)
      case Other
      with D(4,5) show ?thesis by blast
    next
      case (Hit v)
      from D(4) [OF Hit(2)] D(5) [OF Hit(2)]
      have "ej_scheduleId v \<in> fst ` set (emailSchedule_tbl w)"
        and "ej_status v = Sent \<longrightarrow> ej_sentTime v \<noteq> None"
        by blast+
      with Hit(3) ok show ?thesis by (auto split: option.splits)
    qed
  qed
  show "ej_scheduleId r \<in> fst ` set (emailSchedule_tbl (write_status now k st opts w))"
    if "(k', r) \<in> set (emailJob_tbl (write_status now k st opts w))" for k' r
    using rows [OF that] by (simp add: write_status_frame)
  show "ej_sentTime r \<noteq> None"
    if "(k', r) \<in> set (emailJob_tbl (write_status now k st opts w))" "ej_status r = Sent" for k' r
    using rows [OF that(1)] that(2) by simp
qed

lemma count_by_status_le:
  "length (filter (\<lambda>(k, r). ej_scheduleId r = sid \<and> ej_status r = Sent) tbl) +
   length (filter (\<lambda>(k, r). ej_scheduleId r = sid \<and> ej_status r = Failed) tbl)
   \<le> length (filter (\<lambda>(k, r). ej_scheduleId r = sid) tbl)"
  by (induction tbl) auto

lemma terminal_count_le:
  "getEmailJobCountByStatus sid Sent w + getEmailJobCountByStatus sid Failed w \<le> job_count sid w"
  unfolding getEmailJobCountByStatus_def job_count_def by (rule count_by_status_le)

lemma job_count_updateScheduleCounts:
  "job_count sid' (updateScheduleCounts now sid w) = job_count sid' w"
  by (simp add: job_count_def updateScheduleCounts_frame)

lemma emailSchedule_updateScheduleCounts:
  "emailSchedule_tbl (updateScheduleCounts now sid w) =
     (case findUnique (emailSchedule_tbl w) sid of
        None \<Rightarrow> emailSchedule_tbl w
      | Some schedule \<Rightarrow>
          update_row sid
            (\<lambda>r. r\<lparr>es_sentCount := getEmailJobCountByStatus sid Sent w,
                    es_failedCount := getEmailJobCountByStatus sid Failed w,
                    es_status := (if getEmailJobCountByStatus sid Sent w +
                                     getEmailJobCountByStatus sid Failed w \<ge> es_totalCount schedule
                                  then Completed else InProgress),
                    es_updatedAt := now\<rparr>)
            (emailSchedule_tbl w))"
  by (simp add: updateScheduleCounts_def Let_def emit_def split: option.splits)

lemma store_inv_updateScheduleCounts:
  assumes inv: "store_inv_with p w"
  shows "store_inv_with p (updateScheduleCounts now sid w)"
proof (cases "findUnique (emailSchedule_tbl w) sid")
  case None
  then have "emailSchedule_tbl (updateScheduleCounts now sid w) = emailSchedule_tbl w"
    by (simp add: emailSchedule_updateScheduleCounts)
  then have "store_inv_with p (updateScheduleCounts now sid w) = store_inv_with p w"
    by (rule store_inv_with_cong) (simp add: updateScheduleCounts_frame)
  with inv show ?thesis by simp
next
  case (Some schedule)
  note D = store_inv_withD [OF inv]
  let ?c = "getEmailJobCountByStatus sid Sent w + getEmailJobCountByStatus sid Failed w"
  let ?f = "\<lambda>r. r\<lparr>es_sentCount := getEmailJobCountByStatus sid Sent w,
                    es_failedCount := getEmailJobCountByStatus sid Failed w,
                    es_status := (if ?c \<ge> es_totalCount schedule then Completed else InProgress),
                    es_updatedAt := now\<rparr>"
  let ?w' = "updateScheduleCounts now sid w"
  have tbl: "emailSchedule_tbl ?w' = update_row sid ?f (emailSchedule_tbl w)"
    using Some by (simp add: emailSchedule_updateScheduleCounts)
  have mem: "(sid, schedule) \<in> set (emailSchedule_tbl w)"
    using Some by (simp add: findUnique_def map_of_SomeD)
  have le: "?c \<le> es_totalCount schedule"
    using D(2) [OF mem] terminal_count_le [of sid w] by linarith
  have sched: "job_count sid' w + p sid' \<le> es_totalCount s \<and>
               ((es_status s = Completed) = (es_sentCount s + es_failedCount s = es_totalCount s))"
    if "(sid', s) \<in> set (emailSchedule_tbl ?w')" for sid' s
  proof -
    from that [unfolded tbl] show ?thesis
    proof (cases rule: in_update_rowE)
      case Other
      with D(2,3) show ?thesis by blast
    next
      case (Hit v)
      have v: "v = schedule"
        by (rule eq_key_imp_eq_value [OF D(1) Hit(2) mem])
      have "job_count sid w + p sid \<le> es_totalCount schedule"
        by (rule D(2) [OF mem])
      moreover have "(?c \<ge> es_totalCount schedule) = (?c = es_totalCount schedule)"
        using le by linarith
      ultimately show ?thesis
        unfolding Hit(1) Hit(3) v by simp
    qed
  qed
  have keys: "fst ` set (emailSchedule_tbl ?w') = fst ` set (emailSchedule_tbl w)"
  proof -
    have "set (map fst (emailSchedule_tbl ?w')) = set (map fst (emailSchedule_tbl w))"
      unfolding tbl by (simp only: keys_update_row)
    then show ?thesis by (simp only: set_map)
  qed
  show ?thesis
  proof (rule store_inv_withI)
    show "distinct (map fst (emailSchedule_tbl ?w'))"
      unfolding tbl using D(1) by (simp add: keys_update_row)
    show "job_count sid' ?w' + p sid' \<le> es_totalCount s"
      if "(sid', s) \<in> set (emailSchedule_tbl ?w')" for sid' s
      using sched [OF that] by (simp add: job_count_updateScheduleCounts)
    show "(es_status s = Completed) = (es_sentCount s + es_failedCount s = es_totalCount s)"
      if "(sid', s) \<in> set (emailSchedule_tbl ?w')" for sid' s
      using sched [OF that] by simp
    show "ej_scheduleId r \<in> fst ` set (emailSchedule_tbl ?w')"
      if "(k, r) \<in> set (emailJob_tbl ?w')" for k r
      using that D(4) unfolding keys by (simp add: updateScheduleCounts_frame)
    show "ej_sentTime r \<noteq> None"
      if "(k, r) \<in> set (emailJob_tbl ?w')" "ej_status r = Sent" for k r
      using that D(5) by (simp add: updateScheduleCounts_frame)
  qed
qed

lemma store_inv_emit: "store_inv_with p (emit e w) = store_inv_with p w"
  by (rule store_inv_with_cong) (simp_all add: emit_frame)

lemma store_inv_increment:
  "store_inv_with p (snd (incrementRateLimit now s w)) = store_inv_with p w"
  by (rule store_inv_with_cong) (simp_all add: incrementRateLimit_frame)

lemma store_inv_processJob:
  assumes inv: "store_inv_with p w"
  shows "store_inv_with p (snd (processJob cfg tr clk data w))"
proof (cases "deferred cfg clk w")
  case True
  with inv show ?thesis by (simp add: processJob_deferred store_inv_emit)
next
  case False
  show ?thesis
  proof (cases tr)
    case None
    with False inv show ?thesis
      by (simp add: processJob_no_transporter store_inv_emit store_inv_write_status
            store_inv_updateScheduleCounts)
  next
    case (Some sendMail)
    show ?thesis
    proof (cases "sendMail (job_mail data)")
      case (Accepted mid)
      with False Some inv show ?thesis
        by (simp add: processJob_sent store_inv_emit store_inv_write_status
              store_inv_updateScheduleCounts store_inv_increment)
    next
      case (Rejected kind e)
      with False Some inv show ?thesis
        by (simp add: processJob_rejected store_inv_emit store_inv_write_status
              store_inv_updateScheduleCounts)
    qed
  qed
qed

section \<open>What a request does\<close>

lemma dot_plain: "CHR ''.'' \<noteq> CHR ''@'' \<and> \<not> is_space CHR ''.''"
  by (simp add: is_space_def)

lemma emailRegex_test_split:
  assumes t: "emailRegex_test s"
  shows "\<exists>a b c. s = a @ CHR ''@'' # b @ CHR ''.'' # c \<and> a \<noteq> [] \<and> b \<noteq> [] \<and> c \<noteq> [] \<and>
        (\<forall>x \<in> set (a @ b @ c). x \<noteq> CHR ''@'' \<and> \<not> is_space x)"
proof -
  define a where "a = takeWhile (\<lambda>c. c \<noteq> CHR ''@'') s"
  define r where "r = dropWhile (\<lambda>c. c \<noteq> CHR ''@'') s"
  from t have a: "a \<noteq> []" "list_all (\<lambda>c. \<not> is_space c) a"
    by (simp_all add: emailRegex_test_def Let_def a_def)
  from t obtain at d where r: "r = at # d"
    and d: "list_all (\<lambda>c. c \<noteq> CHR ''@'' \<and> \<not> is_space c) d"
    and dot: "CHR ''.'' \<in> set (tl (butlast d))"
    by (auto simp: emailRegex_test_def Let_def r_def split: list.splits)
  have "dropWhile (\<lambda>c. c \<noteq> CHR ''@'') s \<noteq> []"
    using r by (simp add: r_def)
  then have "\<not> hd (dropWhile (\<lambda>c. c \<noteq> CHR ''@'') s) \<noteq> CHR ''@''"
    by (rule hd_dropWhile)
  then have at: "at = CHR ''@''"
    using r by (simp add: r_def)
  from dot obtain u v where uv: "tl (butlast d) = u @ CHR ''.'' # v"
    by (auto simp: in_set_conv_decomp)
  then have bn: "butlast d \<noteq> []" by auto
  then have dn: "d \<noteq> []" by auto
  define x where "x = hd (butlast d)"
  define y where "y = last d"
  have d1: "d = butlast d @ [y]" using dn by (simp add: y_def)
  have d2: "butlast d = x # u @ CHR ''.'' # v" using bn uv by (simp add: x_def flip: uv)
  have dsplit: "d = (x # u) @ CHR ''.'' # (v @ [y])"
    by (subst d1, subst d2) simp
  have "s = a @ r"
    by (simp add: a_def r_def)
  then have s: "s = a @ CHR ''@'' # (x # u) @ CHR ''.'' # (v @ [y])"
    by (simp only: r at dsplit)
  have an: "\<forall>z \<in> set a. z \<noteq> CHR ''@'' \<and> \<not> is_space z"
    using a(2) by (auto simp: list_all_iff a_def dest: set_takeWhileD)
  have dall: "\<forall>z \<in> set d. z \<noteq> CHR ''@'' \<and> \<not> is_space z"
    using d by (simp add: list_all_iff)
  have "set d = set ((x # u) @ CHR ''.'' # (v @ [y]))"
    using dsplit by simp
  then have "set ((x # u) @ (v @ [y])) \<subseteq> set d"
    by auto
  with dall have dsub: "\<forall>z \<in> set ((x # u) @ (v @ [y])). z \<noteq> CHR ''@'' \<and> \<not> is_space z"
    by blast
  have all: "\<forall>z \<in> set (a @ (x # u) @ (v @ [y])). z \<noteq> CHR ''@'' \<and> \<not> is_space z"
    using an dsub by (simp only: set_append ball_Un)
  have "s = a @ CHR ''@'' # (x # u) @ CHR ''.'' # (v @ [y]) \<and> a \<noteq> [] \<and> x # u \<noteq> [] \<and>
        v @ [y] \<noteq> [] \<and>
        (\<forall>z \<in> set (a @ (x # u) @ (v @ [y])). z \<noteq> CHR ''@'' \<and> \<not> is_space z)"
    using s a(1) all by (intro conjI) simp_all
  then show ?thesis by (intro exI)
qed

lemma emailRegex_test_joined:
  assumes s: "s = a @ CHR ''@'' # b @ CHR ''.'' # c"
      and n: "a \<noteq> []" "b \<noteq> []" "c \<noteq> []"
      and p: "\<forall>x \<in> set (a @ b @ c). x \<noteq> CHR ''@'' \<and> \<not> is_space x"
  shows "emailRegex_test s"
proof -
  have ta: "takeWhile (\<lambda>c. c \<noteq> CHR ''@'') s = a"
    unfolding s using p by (subst takeWhile_append2) auto
  have da: "dropWhile (\<lambda>c. c \<noteq> CHR ''@'') s = CHR ''@'' # b @ CHR ''.'' # c"
    unfolding s using p by (subst dropWhile_append2) auto
  have bl: "butlast (b @ CHR ''.'' # c) = b @ CHR ''.'' # butlast c"
    using n(3) by (simp add: butlast_append)
  have "tl (butlast (b @ CHR ''.'' # c)) = tl b @ CHR ''.'' # butlast c"
    unfolding bl using n(2) by simp
  then have dot: "CHR ''.'' \<in> set (tl (butlast (b @ CHR ''.'' # c)))"
    by simp
  have "list_all (\<lambda>c. c \<noteq> CHR ''@'' \<and> \<not> is_space c) (b @ CHR ''.'' # c)"
    using p dot_plain by (simp add: list_all_iff)
  moreover have "list_all (\<lambda>c. \<not> is_space c) a"
    using p by (simp add: list_all_iff)
  ultimately show ?thesis
    unfolding emailRegex_test_def Let_def ta da using n(1) dot by simp
qed

lemma emailRegex_test_iff:
  "emailRegex_test s =
     (\<exists>a b c. s = a @ CHR ''@'' # b @ CHR ''.'' # c \<and> a \<noteq> [] \<and> b \<noteq> [] \<and> c \<noteq> [] \<and>
        (\<forall>x \<in> set (a @ b @ c). x \<noteq> CHR ''@'' \<and> \<not> is_space x))"
proof
  assume "emailRegex_test s"
  then show "\<exists>a b c. s = a @ CHR ''@'' # b @ CHR ''.'' # c \<and> a \<noteq> [] \<and> b \<noteq> [] \<and> c \<noteq> [] \<and>
        (\<forall>x \<in> set (a @ b @ c). x \<noteq> CHR ''@'' \<and> \<not> is_space x)"
    by (rule emailRegex_test_split)
next
  assume "\<exists>a b c. s = a @ CHR ''@'' # b @ CHR ''.'' # c \<and> a \<noteq> [] \<and> b \<noteq> [] \<and> c \<noteq> [] \<and>
        (\<forall>x \<in> set (a @ b @ c). x \<noteq> CHR ''@'' \<and> \<not> is_space x)"
  then obtain a b c where "s = a @ CHR ''@'' # b @ CHR ''.'' # c" "a \<noteq> []" "b \<noteq> []" "c \<noteq> []"
        "\<forall>x \<in> set (a @ b @ c). x \<noteq> CHR ''@'' \<and> \<not> is_space x"
    by (elim exE conjE)
  then show "emailRegex_test s"
    by (rule emailRegex_test_joined)
qed

lemma emailRegex_test_nonempty: "emailRegex_test s \<Longrightarrow> s \<noteq> []"
  by (auto simp: emailRegex_test_def Let_def)

lemma all_valid_recipients:
  assumes "filter (\<lambda>email. \<not> emailRegex_test (trim email)) rs = []"
  shows "filter (\<lambda>e. e \<noteq> []) (map trim rs) = map trim rs"
proof -
  have "\<forall>r \<in> set rs. emailRegex_test (trim r)"
    using assms by (simp add: filter_empty_conv)
  then have "\<forall>e \<in> set (map trim rs). e \<noteq> []"
    using emailRegex_test_nonempty by auto
  then show ?thesis by (simp only: filter_id_conv) 
qed

lemma create_row_Some:
  "create_row k v tbl = Some tbl' \<Longrightarrow> tbl' = tbl @ [(k, v)] \<and> k \<notin> fst ` set tbl"
  by (auto simp: create_row_def map_of_eq_None_iff split: option.splits)

lemma scheduleEmailJob_frame:
  "emailJob_tbl (snd (scheduleEmailJob now data w)) = emailJob_tbl w"
  "emailSchedule_tbl (snd (scheduleEmailJob now data w)) = emailSchedule_tbl w"
  "user_tbl (snd (scheduleEmailJob now data w)) = user_tbl w"
  by (simp_all add: scheduleEmailJob_def Let_def split: option.splits)

lemma update_row_last:
  "k \<notin> fst ` set tbl \<Longrightarrow> update_row k f (tbl @ [(k, v)]) = tbl @ [(k, f v)]"
proof -
  assume a: "k \<notin> fst ` set tbl"
  have "update_row k f (tbl @ [(k, v)]) = update_row k f tbl @ [(k, f v)]"
    by (simp add: update_row_def)
  then show ?thesis using update_row_absent [OF a] by simp
qed

lemma createJobs_step:
  assumes "createJobs uuid clock start delayMs tmpl i (rcpt # rest) created w = (sig, w')"
  shows "(uuid (Suc i) \<in> fst ` set (emailJob_tbl w) \<and> w' = w \<and> (\<exists>e. sig = Throw e)) \<or>
         (uuid (Suc i) \<notin> fst ` set (emailJob_tbl w) \<and>
          (\<exists>w1 created' j.
             emailJob_tbl w1 = emailJob_tbl w @
               [(uuid (Suc i), (job_row clock start delayMs tmpl i rcpt)\<lparr>ej_jobId := j\<rparr>)] \<and>
             emailSchedule_tbl w1 = emailSchedule_tbl w \<and>
             createJobs uuid clock start delayMs tmpl (Suc i) rest created' w1 = (sig, w')))"
proof (cases "create_row (uuid (Suc i)) (job_row clock start delayMs tmpl i rcpt) (emailJob_tbl w)")
  case None
  then have "map_of (emailJob_tbl w) (uuid (Suc i)) \<noteq> None"
    by (auto simp: create_row_def split: option.splits)
  then have "uuid (Suc i) \<in> fst ` set (emailJob_tbl w)"
    by (simp add: map_of_eq_None_iff)
  with assms None show ?thesis
    by (auto simp: Let_def job_row_def)
next
  case (Some tbl)
  note c = create_row_Some [OF Some]
  let ?row = "job_row clock start delayMs tmpl i rcpt"
  let ?w1 = "w\<lparr>emailJob_tbl := emailJob_tbl w @ [(uuid (Suc i), ?row)]\<rparr>"
  let ?data = "tmpl\<lparr>recipient := rcpt, scheduledTime := start + int i * delayMs\<rparr>"
  obtain s2 w2 where se: "scheduleEmailJob (clock i) ?data ?w1 = (s2, w2)"
    by (cases "scheduleEmailJob (clock i) ?data ?w1")
  have f2: "emailJob_tbl w2 = emailJob_tbl w @ [(uuid (Suc i), ?row)]"
           "emailSchedule_tbl w2 = emailSchedule_tbl w"
    using scheduleEmailJob_frame [of "clock i" ?data ?w1] se by simp_all
  show ?thesis
  proof (cases s2)
    case (Return jobId)
    let ?w3 = "w2\<lparr>emailJob_tbl := update_row (uuid (Suc i)) (\<lambda>r. r\<lparr>ej_jobId := Some jobId\<rparr>) (emailJob_tbl w2)\<rparr>"
    have "createJobs uuid clock start delayMs tmpl (Suc i) rest (Suc created) ?w3 = (sig, w')"
      using assms Some c se Return by (simp add: Let_def job_row_def)
    moreover have "emailJob_tbl ?w3 = emailJob_tbl w @ [(uuid (Suc i), ?row\<lparr>ej_jobId := Some jobId\<rparr>)]"
      using c f2 by (simp add: update_row_last)
    moreover have "emailSchedule_tbl ?w3 = emailSchedule_tbl w"
      using f2 by simp
    ultimately show ?thesis using c by blast
  next
    case (Throw e)
    have "createJobs uuid clock start delayMs tmpl (Suc i) rest created w2 = (sig, w')"
      using assms Some c se Throw by (simp add: Let_def job_row_def)
    moreover have "emailJob_tbl w2 = emailJob_tbl w @ [(uuid (Suc i), ?row\<lparr>ej_jobId := None\<rparr>)]"
      using f2 by (simp add: job_row_def)
    ultimately show ?thesis using c f2 by blast
  qed
qed

lemma rows_created_Nil: "rows_created uuid clock start delayMs tmpl i rs []"
  by (simp add: rows_created_def)

lemma rows_created_Cons:
  assumes "rows_created uuid clock start delayMs tmpl (Suc i) rest rows"
  shows "rows_created uuid clock start delayMs tmpl i (rcpt # rest)
           ((uuid (Suc i), (job_row clock start delayMs tmpl i rcpt)\<lparr>ej_jobId := j\<rparr>) # rows)"
  unfolding rows_created_def
proof (intro conjI allI impI)
  show "length ((uuid (Suc i), (job_row clock start delayMs tmpl i rcpt)\<lparr>ej_jobId := j\<rparr>) # rows)
          \<le> length (rcpt # rest)"
    using assms by (simp add: rows_created_def)
next
  fix k
  assume k: "k < length ((uuid (Suc i), (job_row clock start delayMs tmpl i rcpt)\<lparr>ej_jobId := j\<rparr>) # rows)"
  show "fst (((uuid (Suc i), (job_row clock start delayMs tmpl i rcpt)\<lparr>ej_jobId := j\<rparr>) # rows) ! k)
          = uuid (Suc (i + k))"
    using assms k by (cases k) (simp_all add: rows_created_def)
  show "(snd (((uuid (Suc i), (job_row clock start delayMs tmpl i rcpt)\<lparr>ej_jobId := j\<rparr>) # rows) ! k))
          \<lparr>ej_jobId := None\<rparr> = job_row clock start delayMs tmpl (i + k) ((rcpt # rest) ! k)"
    using assms k by (cases k) (simp_all add: rows_created_def job_row_def)
qed

lemma createJobs_effect:
  "createJobs uuid clock start delayMs tmpl i rs created w = (sig, w') \<Longrightarrow>
   emailSchedule_tbl w' = emailSchedule_tbl w \<and>
   (\<exists>rows. emailJob_tbl w' = emailJob_tbl w @ rows \<and>
      ((\<exists>c. sig = Return c) \<longrightarrow> length rows = length rs) \<and>
      distinct (map fst rows) \<and> fst ` set rows \<inter> fst ` set (emailJob_tbl w) = {} \<and>
      rows_created uuid clock start delayMs tmpl i rs rows)"
proof (induction rs arbitrary: i created w)
  case Nil
  then have "w' = w" "sig = Return created" by simp_all
  then show ?case by (simp add: rows_created_Nil)
next
  case (Cons rcpt rest)
  from createJobs_step [OF Cons.prems]
  consider (Dup) "uuid (Suc i) \<in> fst ` set (emailJob_tbl w)" "w' = w" "\<exists>e. sig = Throw e"
    | (Next) w1 created' j where "uuid (Suc i) \<notin> fst ` set (emailJob_tbl w)"
        "emailJob_tbl w1 = emailJob_tbl w @
           [(uuid (Suc i), (job_row clock start delayMs tmpl i rcpt)\<lparr>ej_jobId := j\<rparr>)]"
        "emailSchedule_tbl w1 = emailSchedule_tbl w"
        "createJobs uuid clock start delayMs tmpl (Suc i) rest created' w1 = (sig, w')"
    by blast
  then show ?case
  proof cases
    case Dup
    then have "emailJob_tbl w' = emailJob_tbl w @ []" "\<not> (\<exists>c. sig = Return c)" by auto
    with Dup(2) show ?thesis
      using rows_created_Nil by (intro conjI exI [of _ "[]"]) simp_all
  next
    case Next
    let ?x = "(uuid (Suc i), (job_row clock start delayMs tmpl i rcpt)\<lparr>ej_jobId := j\<rparr>)"
    from Cons.IH [OF Next(4)] obtain rows where
      s: "emailSchedule_tbl w' = emailSchedule_tbl w1" and
      t: "emailJob_tbl w' = emailJob_tbl w1 @ rows" and
      l: "(\<exists>c. sig = Return c) \<longrightarrow> length rows = length rest" and
      d: "distinct (map fst rows)" and
      f: "fst ` set rows \<inter> fst ` set (emailJob_tbl w1) = {}" and
      r: "rows_created uuid clock start delayMs tmpl (Suc i) rest rows"
      by blast
    have k1: "uuid (Suc i) \<in> fst ` set (emailJob_tbl w1)"
      unfolding Next(2) by simp
    have nk: "uuid (Suc i) \<notin> fst ` set rows"
      using f k1 by blast
    have sub: "fst ` set (emailJob_tbl w) \<subseteq> fst ` set (emailJob_tbl w1)"
      unfolding Next(2) by auto
    have "emailJob_tbl w' = emailJob_tbl w @ (?x # rows)"
      using t Next(2) by simp
    moreover have "(\<exists>c. sig = Return c) \<longrightarrow> length (?x # rows) = length (rcpt # rest)"
      using l by simp
    moreover have "distinct (map fst (?x # rows))"
      using d nk by simp
    moreover have "fst ` set (?x # rows) \<inter> fst ` set (emailJob_tbl w) = {}"
    proof -
      have "fst ` set rows \<inter> fst ` set (emailJob_tbl w) = {}"
        using f sub by blast
      then show ?thesis using Next(1) by simp
    qed
    moreover have "rows_created uuid clock start delayMs tmpl i (rcpt # rest) (?x # rows)"
      using r by (rule rows_created_Cons)
    moreover have "emailSchedule_tbl w' = emailSchedule_tbl w"
      using s Next(3) by simp
    ultimately show ?thesis by blast
  qed
qed

lemma scheduleEmails_cases [consumes 1, case_names Refused Duplicate Stored]:
  assumes "scheduleEmails uuid clock req w = (resp, w')"
  obtains
    (Refused) "w' = w" "\<forall>b. resp \<noteq> Created b"
  | (Duplicate) "w' = upsert_user (request_user req) w" "\<forall>b. resp \<noteq> Created b"
  | (Stored) rs start tbl sig where
      "req_recipients req = Some rs" "rs \<noteq> []" "req_startTime req = StartAt start"
      "\<forall>r \<in> set rs. emailRegex_test (trim r)"
      "create_row (uuid 0) (new_schedule clock req start (map trim rs))
         (emailSchedule_tbl (upsert_user (request_user req) w)) = Some tbl"
      "createJobs uuid clock start (request_delayMs req) (new_template uuid req start) 0
         (map trim rs) 0 ((upsert_user (request_user req) w)\<lparr>emailSchedule_tbl := tbl\<rparr>) = (sig, w')"
      "resp = (case sig of
                 Return createdJobs \<Rightarrow>
                   Created \<lparr>rs_scheduleId = uuid 0, rs_totalEmails = length rs,
                            rs_status = ''scheduled'', rs_createdJobs = createdJobs\<rparr>
               | Throw e \<Rightarrow> ServerError ''Failed to schedule emails'' (error_message e))"
proof (cases "falsy (hdr_userId req) \<or> falsy (req_subject req) \<or> falsy (req_body req) \<or>
              (case req_recipients req of None \<Rightarrow> True | Some rs \<Rightarrow> length rs = 0)")
  case True
  with assms have "w' = w" "\<forall>b. resp \<noteq> Created b"
    by (auto simp: scheduleEmails_def Let_def split: if_splits)
  then show ?thesis by (rule Refused)
next
  case False
  then obtain rs where rs: "req_recipients req = Some rs" "rs \<noteq> []"
    by (cases "req_recipients req") auto
  show ?thesis
  proof (cases "req_startTime req")
    case StartMissing
    with assms False have "w' = w" "\<forall>b. resp \<noteq> Created b"
      by (auto simp: scheduleEmails_def Let_def)
    then show ?thesis by (rule Refused)
  next
    case StartInvalid
    with assms False have "w' = w" "\<forall>b. resp \<noteq> Created b"
      by (auto simp: scheduleEmails_def Let_def)
    then show ?thesis by (rule Refused)
  next
    case (StartAt start)
    show ?thesis
    proof (cases "filter (\<lambda>email. \<not> emailRegex_test (trim email)) rs = []")
      case bad: False
      with assms False rs StartAt have "w' = w" "\<forall>b. resp \<noteq> Created b"
        by (auto simp: scheduleEmails_def Let_def)
      then show ?thesis by (rule Refused)
    next
      case ok: True
      have valid: "filter (\<lambda>e. e \<noteq> []) (map trim rs) = map trim rs"
        using ok by (rule all_valid_recipients)
      have allok: "\<forall>r \<in> set rs. emailRegex_test (trim r)"
        using ok by (simp add: filter_empty_conv)
      show ?thesis
      proof (cases "create_row (uuid 0) (new_schedule clock req start (map trim rs))
                      (emailSchedule_tbl (upsert_user (request_user req) w))")
        case None
        with assms False rs StartAt ok valid
        have "w' = upsert_user (request_user req) w" "\<forall>b. resp \<noteq> Created b"
          by (auto simp: scheduleEmails_def Let_def new_schedule_def request_user_def
                request_delayMs_def)
        then show ?thesis by (rule Duplicate)
      next
        case (Some tbl)
        obtain sig w3 where cj:
          "createJobs uuid clock start (request_delayMs req) (new_template uuid req start) 0
             (map trim rs) 0 ((upsert_user (request_user req) w)\<lparr>emailSchedule_tbl := tbl\<rparr>) =
             (sig, w3)"
          by (cases "createJobs uuid clock start (request_delayMs req) (new_template uuid req start) 0
             (map trim rs) 0 ((upsert_user (request_user req) w)\<lparr>emailSchedule_tbl := tbl\<rparr>)")
        have "w' = w3 \<and> resp = (case sig of
                 Return createdJobs \<Rightarrow>
                   Created \<lparr>rs_scheduleId = uuid 0, rs_totalEmails = length rs,
                            rs_status = ''scheduled'', rs_createdJobs = createdJobs\<rparr>
               | Throw e \<Rightarrow> ServerError ''Failed to schedule emails'' (error_message e))"
          using assms False rs StartAt ok valid Some cj
          by (auto simp: scheduleEmails_def Let_def new_schedule_def new_template_def
                request_user_def request_delayMs_def split: signal.splits)
        with cj show ?thesis
          using rs StartAt allok Some by (intro Stored [of rs start tbl sig]) simp_all
      qed
    qed
  qed
qed

lemma rows_created_fields:
  assumes rc: "rows_created uuid clock start delayMs tmpl i rs rows" and m: "(k, r) \<in> set rows"
  shows "ej_scheduleId r = scheduleId tmpl" and "ej_status r = Pending" and "ej_sentTime r = None"
proof -
  from m obtain n where n: "n < length rows" "rows ! n = (k, r)"
    by (auto simp: in_set_conv_nth)
  with rc have e: "r\<lparr>ej_jobId := None\<rparr> = job_row clock start delayMs tmpl (i + n) (rs ! n)"
    by (auto simp: rows_created_def)
  have "ej_scheduleId (r\<lparr>ej_jobId := None\<rparr>) = scheduleId tmpl"
       "ej_status (r\<lparr>ej_jobId := None\<rparr>) = Pending"
       "ej_sentTime (r\<lparr>ej_jobId := None\<rparr>) = None"
    unfolding e by (simp_all add: job_row_def)
  then show "ej_scheduleId r = scheduleId tmpl" and "ej_status r = Pending"
    and "ej_sentTime r = None"
    by simp_all
qed

lemma count_rows_of:
  "\<forall>(k, r) \<in> set rows. ej_scheduleId r = sid \<Longrightarrow>
   length (filter (\<lambda>(k, r). ej_scheduleId r = sid') rows) = (if sid' = sid then length rows else 0)"
  by (induction rows) auto

lemma count_zero_of:
  "\<forall>(k, r) \<in> set tbl. ej_scheduleId r \<noteq> sid \<Longrightarrow>
   length (filter (\<lambda>(k, r). ej_scheduleId r = sid) tbl) = 0"
  by (induction tbl) auto

lemma upsert_user_frame:
  "emailSchedule_tbl (upsert_user uid w) = emailSchedule_tbl w"
  "emailJob_tbl (upsert_user uid w) = emailJob_tbl w"
  by (simp_all add: upsert_user_def split: option.splits)

lemma findUnique_append_fresh:
  "k \<notin> fst ` set tbl \<Longrightarrow> findUnique (tbl @ rows) k = findUnique rows k"
  unfolding findUnique_def
  by (simp add: map_add_def map_of_eq_None_iff [symmetric] split: option.splits)

lemma findUnique_single: "findUnique [(k, v)] k = Some v"
  by (simp add: findUnique_def)

lemma accepted_request:
  assumes run: "scheduleEmails uuid clock req w = (Created b, w')"
      and rs: "req_recipients req = Some rs"
  obtains start rows where
    "req_startTime req = StartAt start" "rs \<noteq> []"
    "rs_scheduleId b = uuid 0" "rs_totalEmails b = length rs"
    "uuid 0 \<notin> fst ` set (emailSchedule_tbl w)"
    "emailSchedule_tbl w' =
       emailSchedule_tbl w @ [(uuid 0, new_schedule clock req start (map trim rs))]"
    "emailJob_tbl w' = emailJob_tbl w @ rows" "length rows = length rs"
    "distinct (map fst rows)" "fst ` set rows \<inter> fst ` set (emailJob_tbl w) = {}"
    "rows_created uuid clock start (request_delayMs req) (new_template uuid req start) 0
       (map trim rs) rows"
  using run
proof (cases rule: scheduleEmails_cases)
  case Refused
  then show ?thesis by simp
next
  case Duplicate
  then show ?thesis by simp
next
  case (Stored rs' start tbl sig)
  have [simp]: "rs' = rs" using Stored(1) rs by simp
  obtain c where sig: "sig = Return c" and b: "b = \<lparr>rs_scheduleId = uuid 0, rs_totalEmails = length rs,
                            rs_status = ''scheduled'', rs_createdJobs = c\<rparr>"
    using Stored(7) by (cases sig) simp_all
  have c: "tbl = emailSchedule_tbl w @ [(uuid 0, new_schedule clock req start (map trim rs))]"
          "uuid 0 \<notin> fst ` set (emailSchedule_tbl w)"
    using create_row_Some [OF Stored(5)] by (simp_all add: upsert_user_frame)
  from createJobs_effect [OF Stored(6)] sig obtain rows where
    "emailSchedule_tbl w' = tbl" "emailJob_tbl w' = emailJob_tbl w @ rows"
    "length rows = length rs" "distinct (map fst rows)"
    "fst ` set rows \<inter> fst ` set (emailJob_tbl w) = {}"
    "rows_created uuid clock start (request_delayMs req) (new_template uuid req start) 0
       (map trim rs) rows"
    by (auto simp: upsert_user_frame)
  with Stored(2,3) b c show ?thesis
    by (intro that [of start rows]) simp_all
qed

section \<open>Reachable states\<close>

lemma store_inv_scheduleEmails:
  assumes inv: "store_inv w" and run: "scheduleEmails uuid clock req w = (resp, w')"
  shows "store_inv w'"
  using run
proof (cases rule: scheduleEmails_cases)
  case Refused
  with inv show ?thesis by simp
next
  case Duplicate
  have "store_inv_with (\<lambda>sid. 0) w' = store_inv_with (\<lambda>sid. 0) w"
    unfolding Duplicate(1) by (rule store_inv_with_cong) (simp_all add: upsert_user_frame)
  with inv show ?thesis by (simp add: store_inv_def)
next
  case (Stored rs start tbl sig)
  note D = store_inv_withD [OF inv [unfolded store_inv_def]]
  let ?sid = "uuid 0"
  let ?new = "new_schedule clock req start (map trim rs)"
  have c: "tbl = emailSchedule_tbl w @ [(?sid, ?new)]" "?sid \<notin> fst ` set (emailSchedule_tbl w)"
    using create_row_Some [OF Stored(5)] by (simp_all add: upsert_user_frame)
  from createJobs_effect [OF Stored(6)] obtain rows where
    s: "emailSchedule_tbl w' = tbl" and
    t: "emailJob_tbl w' = emailJob_tbl w @ rows" and
    r: "rows_created uuid clock start (request_delayMs req) (new_template uuid req start) 0
          (map trim rs) rows"
    by (auto simp: upsert_user_frame)
  have len: "length rows \<le> length rs"
    using r by (simp add: rows_created_def)
  have rows_sid: "ej_scheduleId x = ?sid" if "(k, x) \<in> set rows" for k x
    using rows_created_fields(1) [OF r that] by (simp add: new_template_def)
  have rows_pending: "ej_status x = Pending" if "(k, x) \<in> set rows" for k x
    using rows_created_fields(2) [OF r that] .
  have old_not_sid: "ej_scheduleId x \<noteq> ?sid" if "(k, x) \<in> set (emailJob_tbl w)" for k x
    using D(4) [OF that] c(2) by force
  have jc: "job_count sid' w' = job_count sid' w + (if sid' = ?sid then length rows else 0)" for sid'
  proof -
    have "\<forall>(k, r) \<in> set rows. ej_scheduleId r = ?sid"
      using rows_sid by blast
    from count_rows_of [OF this, of sid'] show ?thesis
      unfolding job_count_def t by simp
  qed
  have jc0: "job_count ?sid w = 0"
  proof -
    have "\<forall>(k, r) \<in> set (emailJob_tbl w). ej_scheduleId r \<noteq> ?sid"
      using old_not_sid by blast
    from count_zero_of [OF this] show ?thesis
      unfolding job_count_def .
  qed
  show ?thesis
    unfolding store_inv_def
  proof (rule store_inv_withI)
    show "distinct (map fst (emailSchedule_tbl w'))"
      unfolding s c(1) using D(1) c(2) by simp
  next
    fix sid' x assume "(sid', x) \<in> set (emailSchedule_tbl w')"
    then consider "(sid', x) \<in> set (emailSchedule_tbl w)" | "sid' = ?sid" "x = ?new"
      unfolding s c(1) by auto
    then show "job_count sid' w' + 0 \<le> es_totalCount x"
    proof cases
      case 1
      then have "sid' \<noteq> ?sid" using c(2) by force
      with D(2) [OF 1] show ?thesis by (simp add: jc)
    next
      case 2
      then show ?thesis using len by (simp add: jc jc0 new_schedule_def)
    qed
  next
    fix sid' x assume "(sid', x) \<in> set (emailSchedule_tbl w')"
    then consider "(sid', x) \<in> set (emailSchedule_tbl w)" | "sid' = ?sid" "x = ?new"
      unfolding s c(1) by auto
    then show "(es_status x = Completed) = (es_sentCount x + es_failedCount x = es_totalCount x)"
    proof cases
      case 1
      then show ?thesis by (rule D(3))
    next
      case 2
      then show ?thesis using Stored(2) by (simp add: new_schedule_def)
    qed
  next
    fix k x assume "(k, x) \<in> set (emailJob_tbl w')"
    then consider "(k, x) \<in> set (emailJob_tbl w)" | "(k, x) \<in> set rows"
      unfolding t by auto
    then show "ej_scheduleId x \<in> fst ` set (emailSchedule_tbl w')"
    proof cases
      case 1
      from D(4) [OF 1] show ?thesis unfolding s c(1) by simp
    next
      case 2
      from rows_sid [OF 2] show ?thesis unfolding s c(1) by simp
    qed
  next
    fix k x assume a: "(k, x) \<in> set (emailJob_tbl w')" "ej_status x = Sent"
    then consider "(k, x) \<in> set (emailJob_tbl w)" | "(k, x) \<in> set rows"
      unfolding t by auto
    then show "ej_sentTime x \<noteq> None"
    proof cases
      case 1
      then show ?thesis using a(2) by (rule D(5))
    next
      case 2
      from rows_pending [OF 2] a(2) show ?thesis by simp
    qed
  qed
qed

lemma store_inv_initial: "store_inv initial_world"
  by (simp add: store_inv_def store_inv_with_def initial_world_def)

lemma reachable_store_inv: "reachable w \<Longrightarrow> store_inv w"
proof (induction rule: reachable.induct)
  case boot
  show ?case by (rule store_inv_initial)
next
  case (init_queue w)
  have "store_inv_with (\<lambda>sid. 0) (initializeQueue w) = store_inv_with (\<lambda>sid. 0) w"
    by (rule store_inv_with_cong) (simp_all add: initializeQueue_def split: option.splits)
  with init_queue.IH show ?case by (simp add: store_inv_def)
next
  case (submit w uuid clock req resp w')
  then show ?case using store_inv_scheduleEmails by blast
next
  case (work w cfg transporter clk data out w')
  have "store_inv_with (\<lambda>sid. 0) (snd (processJob cfg transporter clk data w))"
    using work.IH unfolding store_inv_def by (rule store_inv_processJob)
  with work.hyps show ?case by (simp add: store_inv_def)
next
  case (reset w now sender)
  have "store_inv_with (\<lambda>sid. 0) (resetRateLimit now sender w) = store_inv_with (\<lambda>sid. 0) w"
    by (rule store_inv_with_cong)
       (simp_all add: resetRateLimit_def Let_def split: option.splits list.splits)
  with reset.IH show ?case by (simp add: store_inv_def)
qed

section \<open>The scenarios, evaluated\<close>

lemmas eval_defs = scheduleEmails_def req_a_def uuid_a_def uuid_same_def clock_a_def initializeQueue_def
  initial_world_def falsy_def trim_def is_space_def emailRegex_test_def Let_def create_row_def
  upsert_user_def scheduleEmailJob_def queue_add_def update_row_def

lemma world_submitted_tables:
  "emailSchedule_tbl world_submitted =
     [(''s1'', \<lparr>es_userId = ''u@x.io'', es_subject = ''Hi'', es_body = ''Hello'',
               es_recipients = [''a@x.io''], es_startTime = 1000, es_delayMs = 2000,
               es_hourlyLimit = 200, es_totalCount = 1, es_sentCount = 0, es_failedCount = 0,
               es_status = Scheduled, es_updatedAt = 500\<rparr>)]"
  "emailJob_tbl world_submitted =
     [(''j1'', \<lparr>ej_scheduleId = ''s1'', ej_userId = ''u@x.io'', ej_recipient = ''a@x.io'',
               ej_subject = ''Hi'', ej_body = ''Hello'', ej_scheduledTime = 1000,
               ej_status = Pending, ej_sentTime = None, ej_errorMessage = None,
               ej_jobId = Some (''s1'', ''a@x.io'', 500), ej_updatedAt = 500\<rparr>)]"
  "redis world_submitted = Map.empty" "rateLimitCounter_tbl world_submitted = Map.empty"
  "trace world_submitted = []"
  by (simp_all add: world_submitted_def eval_defs)

lemma world_submitted_queue:
  "emailQueue world_submitted =
     Some [\<lparr>bj_name = ''email-a@x.io'', bj_data = job_a, bj_delay = 500,
            bj_id = (''s1'', ''a@x.io'', 500)\<rparr>]"
  by (simp add: world_submitted_def eval_defs job_a_def)

lemma world_submitted_same_tables:
  "emailSchedule_tbl world_submitted_same =
     [(''s1'', \<lparr>es_userId = ''u@x.io'', es_subject = ''Hi'', es_body = ''Hello'',
               es_recipients = [''a@x.io''], es_startTime = 1000, es_delayMs = 2000,
               es_hourlyLimit = 200, es_totalCount = 1, es_sentCount = 0, es_failedCount = 0,
               es_status = Scheduled, es_updatedAt = 500\<rparr>)]"
  "emailJob_tbl world_submitted_same =
     [(''s1'', \<lparr>ej_scheduleId = ''s1'', ej_userId = ''u@x.io'', ej_recipient = ''a@x.io'',
               ej_subject = ''Hi'', ej_body = ''Hello'', ej_scheduledTime = 1000,
               ej_status = Pending, ej_sentTime = None, ej_errorMessage = None,
               ej_jobId = Some (''s1'', ''a@x.io'', 500), ej_updatedAt = 500\<rparr>)]"
  "redis world_submitted_same = Map.empty" "rateLimitCounter_tbl world_submitted_same = Map.empty"
  "trace world_submitted_same = []"
  by (simp_all add: world_submitted_same_def eval_defs)

lemma reachable_submitted: "reachable world_submitted" "reachable world_submitted_same"
  unfolding world_submitted_def world_submitted_same_def
  by (rule submit [OF init_queue [OF boot] prod.collapse [symmetric]])+

lemma reachable_processed: "reachable world_processed" "reachable world_processed_same"
  unfolding world_processed_def world_processed_same_def
  by (rule work [OF _ prod.collapse [symmetric]], rule reachable_submitted)+

lemma not_deferred_submitted:
  "\<not> deferred default_config clk world_submitted"
  "\<not> deferred default_config clk world_submitted_same"
  by (rule not_deferred_empty, simp_all add: world_submitted_tables world_submitted_same_tables default_config_def)+

lemma world_processed_eq:
  "world_processed =
     updateScheduleCounts (at_recount (run_at 1000)) (scheduleId job_a)
       (emit (Slept (DELAY_BETWEEN_EMAILS_MS default_config))
         (write_status (at_update (run_at 1000)) (scheduleId job_a) Sent
            \<lparr>sentTime = Some (at_sent (run_at 1000)), errorMessage = None\<rparr>
           (snd (incrementRateLimit (at_increment (run_at 1000)) worker_sender
             (emit (MailerCalled (job_mail job_a))
               (emit (RateLimitChecked worker_sender (MAX_EMAILS_PER_HOUR default_config))
                  world_submitted))))))"
  unfolding world_processed_def
  using processJob_sent [where sendMail = mailer_ok and data = job_a and mid = "''m1''",
      OF not_deferred_submitted(1)]
  by (simp add: mailer_ok_def)

lemma world_processed_same_eq:
  "world_processed_same =
     updateScheduleCounts (at_recount (run_at 1000)) (scheduleId job_a)
       (emit (Slept (DELAY_BETWEEN_EMAILS_MS default_config))
         (write_status (at_update (run_at 1000)) (scheduleId job_a) Sent
            \<lparr>sentTime = Some (at_sent (run_at 1000)), errorMessage = None\<rparr>
           (snd (incrementRateLimit (at_increment (run_at 1000)) worker_sender
             (emit (MailerCalled (job_mail job_a))
               (emit (RateLimitChecked worker_sender (MAX_EMAILS_PER_HOUR default_config))
                  world_submitted_same))))))"
  unfolding world_processed_same_def
  using processJob_sent [where sendMail = mailer_ok and data = job_a and mid = "''m1''",
      OF not_deferred_submitted(2)]
  by (simp add: mailer_ok_def)

lemmas table_eval = updateScheduleCounts_frame emailSchedule_updateScheduleCounts emit_frame
  write_status_tbl write_status_frame incrementRateLimit_frame job_a_def findUnique_def
  update_row_def default_config_def getEmailJobCountByStatus_def run_at_def

lemma processed_tables:
  "emailSchedule_tbl world_processed =
     [(''s1'', \<lparr>es_userId = ''u@x.io'', es_subject = ''Hi'', es_body = ''Hello'',
               es_recipients = [''a@x.io''], es_startTime = 1000, es_delayMs = 2000,
               es_hourlyLimit = 200, es_totalCount = 1, es_sentCount = 0, es_failedCount = 0,
               es_status = InProgress, es_updatedAt = 3260\<rparr>)]"
  "emailJob_tbl world_processed = emailJob_tbl world_submitted"
  unfolding world_processed_eq
  by (simp_all add: table_eval world_submitted_tables)

lemma processed_same_tables:
  "emailSchedule_tbl world_processed_same =
     [(''s1'', \<lparr>es_userId = ''u@x.io'', es_subject = ''Hi'', es_body = ''Hello'',
               es_recipients = [''a@x.io''], es_startTime = 1000, es_delayMs = 2000,
               es_hourlyLimit = 200, es_totalCount = 1, es_sentCount = 1, es_failedCount = 0,
               es_status = Completed, es_updatedAt = 3260\<rparr>)]"
  "emailJob_tbl world_processed_same =
     [(''s1'', \<lparr>ej_scheduleId = ''s1'', ej_userId = ''u@x.io'', ej_recipient = ''a@x.io'',
               ej_subject = ''Hi'', ej_body = ''Hello'', ej_scheduledTime = 1000,
               ej_status = Sent, ej_sentTime = Some 1251, ej_errorMessage = None,
               ej_jobId = Some (''s1'', ''a@x.io'', 500), ej_updatedAt = 1252\<rparr>)]"
  unfolding world_processed_same_eq
  by (simp_all add: table_eval world_submitted_same_tables)

lemma world_dup_eval:
  "fst (scheduleEmails uuid_a clock_a req_dup (initializeQueue initial_world)) =
     Created \<lparr>rs_scheduleId = ''s1'', rs_totalEmails = 2, rs_status = ''scheduled'',
              rs_createdJobs = 2\<rparr>"
  "map (\<lambda>(k, r). (k, ej_scheduleId r, ej_recipient r, ej_scheduledTime r)) (emailJob_tbl world_dup) =
     [(''j1'', ''s1'', ''a@x.io'', 1000), (''j2'', ''s1'', ''A@x.io'', 3000)]"
  "map (\<lambda>(k, s). (k, es_totalCount s, es_startTime s, es_delayMs s)) (emailSchedule_tbl world_dup) =
     [(''s1'', 2, 1000, 2000)]"
  by (simp_all add: world_dup_def req_dup_def eval_defs)

lemma submitted_response:
  "scheduleEmails uuid_a clock_a req_a (initializeQueue initial_world) =
     (Created \<lparr>rs_scheduleId = ''s1'', rs_totalEmails = 1, rs_status = ''scheduled'',
               rs_createdJobs = 1\<rparr>, world_submitted)"
proof -
  have "fst (scheduleEmails uuid_a clock_a req_a (initializeQueue initial_world)) =
     Created \<lparr>rs_scheduleId = ''s1'', rs_totalEmails = 1, rs_status = ''scheduled'',
              rs_createdJobs = 1\<rparr>"
    by (simp add: eval_defs)
  then show ?thesis
    unfolding world_submitted_def by (metis prod.collapse)
qed

lemma dup_response:
  "scheduleEmails uuid_a clock_a req_dup (initializeQueue initial_world) =
     (Created \<lparr>rs_scheduleId = ''s1'', rs_totalEmails = 2, rs_status = ''scheduled'',
               rs_createdJobs = 2\<rparr>, world_dup)"
  using world_dup_eval(1) unfolding world_dup_def by (metis prod.collapse)

text \<open>
  The limit is reached in hour 0. A run that reads the clock twice within the hour moves
  the job to the delayed set; a run whose second reading falls into the next hour sends.
\<close>

lemma limit_reached_within_hour:
  "currentCount (fst (checkRateLimit (at_check (run_at 1000)) worker_sender 200 world_full)) = 200"
  "processJob default_config (Some mailer_ok) (run_at 1000) job_a world_full =
     (Return Undefined,
      emit (MovedToDelayed 3598999) (emit (RateLimitChecked worker_sender 200) world_full))"
proof -
  show "currentCount (fst (checkRateLimit (at_check (run_at 1000)) worker_sender 200 world_full)) = 200"
    by (simp add: checkRateLimit_def world_full_def initial_world_def run_at_def
          getHourWindow_def Let_def)
  have "deferred default_config (run_at 1000) world_full"
    by (simp add: deferred_def checkRateLimit_def world_full_def initial_world_def run_at_def
          getHourWindow_def getNextHourWindow_def default_config_def Let_def)
  then show "processJob default_config (Some mailer_ok) (run_at 1000) job_a world_full =
     (Return Undefined,
      emit (MovedToDelayed 3598999) (emit (RateLimitChecked worker_sender 200) world_full))"
    by (simp add: processJob_deferred checkRateLimit_def world_full_def initial_world_def
          run_at_def getHourWindow_def getNextHourWindow_def default_config_def Let_def)
qed

lemma limit_reached_hour_turned:
  "currentCount (fst (checkRateLimit (at_check clock_turn) worker_sender 200 world_full)) = 200"
  "fst (processJob default_config (Some mailer_ok) clock_turn job_a world_full) =
     Return (SendOk (Some ''m1''))"
  "run_events world_full (snd (processJob default_config (Some mailer_ok) clock_turn job_a world_full)) =
     [RateLimitChecked worker_sender 200, MailerCalled (job_mail job_a),
      RateLimitIncremented worker_sender, Slept 2000, CountsRecomputed ''s1'']"
proof -
  show "currentCount (fst (checkRateLimit (at_check clock_turn) worker_sender 200 world_full)) = 200"
    by (simp add: checkRateLimit_def world_full_def initial_world_def clock_turn_def run_at_def
          getHourWindow_def Let_def)
  have n: "\<not> deferred default_config clock_turn world_full"
    by (simp add: deferred_def checkRateLimit_def world_full_def initial_world_def
          clock_turn_def run_at_def getHourWindow_def getNextHourWindow_def default_config_def
          Let_def)
  have a: "mailer_ok (job_mail job_a) = Accepted ''m1''"
    by (simp add: mailer_ok_def)
  show "fst (processJob default_config (Some mailer_ok) clock_turn job_a world_full) =
     Return (SendOk (Some ''m1''))"
    using n a by (simp add: processJob_sent)
  show "run_events world_full (snd (processJob default_config (Some mailer_ok) clock_turn job_a world_full)) =
     [RateLimitChecked worker_sender 200, MailerCalled (job_mail job_a),
      RateLimitIncremented worker_sender, Slept 2000, CountsRecomputed ''s1'']"
    using events_sent [where sendMail = mailer_ok and data = job_a, OF n a]
    by (simp add: status_events_def world_full_def initial_world_def findUnique_def
          default_config_def job_a_def)
qed



section \<open>The claims\<close>

subsection \<open>C1: what the worker writes after a successful send\<close>

text \<open>
  C1 at the failing input. A request with one recipient is accepted: \<open>uuidv4\<close> gives the
  campaign the identifier \<open>s1\<close> and its job row the identifier \<open>j1\<close>, and the queue holds
  the job, whose data carry the \<open>scheduleId\<close> \<open>s1\<close> and no identifier of the row. The
  worker runs that job with a Mailer that accepts the message. The run returns the message
  id and counts the send, but it looks the job row up under \<open>job.data.scheduleId\<close>, finds
  none and writes none: the row of the job is still \<open>pending\<close> and has no \<open>sentTime\<close>, and
  the recount leaves the campaign in progress with no mail sent. In general a run leaves
  the job rows as they are whenever no row is stored under the \<open>scheduleId\<close> of its job
  (\<open>emailJob_tbl_processJob\<close>).
\<close>

theorem successful_send_leaves_row_pending:
  "emailQueue world_submitted =
     Some [\<lparr>bj_name = ''email-a@x.io'', bj_data = job_a, bj_delay = 500,
            bj_id = (''s1'', ''a@x.io'', 500)\<rparr>] \<and>
   map (\<lambda>(k, r). (k, ej_scheduleId r, ej_recipient r, ej_status r, ej_sentTime r))
     (emailJob_tbl world_submitted) = [(''j1'', ''s1'', ''a@x.io'', Pending, None)] \<and>
   fst (processJob default_config (Some mailer_ok) (run_at 1000) job_a world_submitted) =
     Return (SendOk (Some ''m1'')) \<and>
   run_events world_submitted
     (snd (processJob default_config (Some mailer_ok) (run_at 1000) job_a world_submitted)) =
     [RateLimitChecked worker_sender 200, MailerCalled (job_mail job_a),
      RateLimitIncremented worker_sender, Slept 2000, CountsRecomputed ''s1''] \<and>
   map (\<lambda>(k, r). (k, ej_scheduleId r, ej_recipient r, ej_status r, ej_sentTime r))
     (emailJob_tbl
        (snd (processJob default_config (Some mailer_ok) (run_at 1000) job_a world_submitted))) =
     [(''j1'', ''s1'', ''a@x.io'', Pending, None)] \<and>
   map (\<lambda>(k, s). (k, es_status s, es_sentCount s, es_failedCount s, es_totalCount s))
     (emailSchedule_tbl
        (snd (processJob default_config (Some mailer_ok) (run_at 1000) job_a world_submitted))) =
     [(''s1'', InProgress, 0, 0, 1)]"
proof -
  have a: "mailer_ok (job_mail job_a) = Accepted ''m1''"
    by (simp add: mailer_ok_def)
  have o: "fst (processJob default_config (Some mailer_ok) (run_at 1000) job_a world_submitted) =
             Return (SendOk (Some ''m1''))"
    using not_deferred_submitted(1) a by (simp add: processJob_sent)
  have e: "run_events world_submitted
     (snd (processJob default_config (Some mailer_ok) (run_at 1000) job_a world_submitted)) =
     [RateLimitChecked worker_sender 200, MailerCalled (job_mail job_a),
      RateLimitIncremented worker_sender, Slept 2000, CountsRecomputed ''s1'']"
    using events_sent [where sendMail = mailer_ok and data = job_a and clk = "run_at 1000",
        OF not_deferred_submitted(1) a]
    by (simp add: status_events_def world_submitted_tables findUnique_def default_config_def
          job_a_def)
  have t: "map (\<lambda>(k, r). (k, ej_scheduleId r, ej_recipient r, ej_status r, ej_sentTime r))
     (emailJob_tbl world_processed) = [(''j1'', ''s1'', ''a@x.io'', Pending, None)]"
    by (simp add: processed_tables world_submitted_tables)
  have c: "map (\<lambda>(k, s). (k, es_status s, es_sentCount s, es_failedCount s, es_totalCount s))
     (emailSchedule_tbl world_processed) = [(''s1'', InProgress, 0, 0, 1)]"
    by (simp add: processed_tables)
  have b: "map (\<lambda>(k, r). (k, ej_scheduleId r, ej_recipient r, ej_status r, ej_sentTime r))
     (emailJob_tbl world_submitted) = [(''j1'', ''s1'', ''a@x.io'', Pending, None)]"
    by (simp add: world_submitted_tables)
  from world_submitted_queue b o e t c show ?thesis
    unfolding world_processed_def by (intro conjI)
qed

subsection \<open>C2: the limit the worker hands to the rate limiter\<close>



subsection \<open>C3: a campaign is completed exactly when its counts reach the total\<close>

text \<open>
  C3: in every reachable state, every campaign row has status \<open>completed\<close> if and only if
  its \<open>sentCount\<close> and \<open>failedCount\<close> add up to its \<open>totalCount\<close>. The three fields and the
  status are written by one update, so a read of the row sees them together.
\<close>

theorem completed_iff_counts_reach_total:
  assumes "reachable w" and "findUnique (emailSchedule_tbl w) sid = Some campaign"
  shows "(es_status campaign = Completed) =
         (es_sentCount campaign + es_failedCount campaign = es_totalCount campaign)"
proof -
  have "(sid, campaign) \<in> set (emailSchedule_tbl w)"
    using assms(2) by (simp add: findUnique_def map_of_SomeD)
  with store_inv_withD(3) [OF reachable_store_inv [OF assms(1), unfolded store_inv_def]]
  show ?thesis by blast
qed

text \<open>
  The theorem at two reachable states: a campaign that is completed, and one that is in
  progress.
\<close>

theorem completed_iff_counts_reach_total_witness:
  "reachable world_processed_same \<and>
   map_option (\<lambda>s. (es_status s, es_sentCount s, es_failedCount s, es_totalCount s))
     (findUnique (emailSchedule_tbl world_processed_same) ''s1'') = Some (Completed, 1, 0, 1) \<and>
   reachable world_processed \<and>
   map_option (\<lambda>s. (es_status s, es_sentCount s, es_failedCount s, es_totalCount s))
     (findUnique (emailSchedule_tbl world_processed) ''s1'') = Some (InProgress, 0, 0, 1)"
proof -
  have a: "findUnique (emailSchedule_tbl world_processed_same) ''s1'' =
             Some \<lparr>es_userId = ''u@x.io'', es_subject = ''Hi'', es_body = ''Hello'',
               es_recipients = [''a@x.io''], es_startTime = 1000, es_delayMs = 2000,
               es_hourlyLimit = 200, es_totalCount = 1, es_sentCount = 1, es_failedCount = 0,
               es_status = Completed, es_updatedAt = 3260\<rparr>"
    by (simp add: processed_same_tables findUnique_def)
  have b: "findUnique (emailSchedule_tbl world_processed) ''s1'' =
             Some \<lparr>es_userId = ''u@x.io'', es_subject = ''Hi'', es_body = ''Hello'',
               es_recipients = [''a@x.io''], es_startTime = 1000, es_delayMs = 2000,
               es_hourlyLimit = 200, es_totalCount = 1, es_sentCount = 0, es_failedCount = 0,
               es_status = InProgress, es_updatedAt = 3260\<rparr>"
    by (simp add: processed_tables findUnique_def)
  show ?thesis
    using completed_iff_counts_reach_total [OF reachable_processed(2) a] completed_iff_counts_reach_total [OF reachable_processed(1) b]
      reachable_processed a b
    by simp
qed

subsection \<open>C4: check, increment, check\<close>

text \<open>
  C4 at the failing input: Redis has lost the key of the hour and the database row of the
  hour holds 7. The first check reports 7, the increment restarts the counter at 1 (and
  overwrites the database row), the second check reports 1, not 8. In general the second
  check sees one more than the first when Redis had the key, and 1 when it had not
  (\<open>check_increment_check_general\<close>).
\<close>

theorem check_increment_check_after_eviction:
  "currentCount (fst (checkRateLimit 1000 worker_sender 200 world_evicted)) = 7 \<and>
   fst (incrementRateLimit 1000 worker_sender (snd (checkRateLimit 1000 worker_sender 200 world_evicted))) = 1 \<and>
   currentCount (fst (checkRateLimit 1000 worker_sender 200
      (snd (incrementRateLimit 1000 worker_sender
         (snd (checkRateLimit 1000 worker_sender 200 world_evicted)))))) = 1"
  by (simp add: world_evicted_def initial_world_def checkRateLimit_def incrementRateLimit_def
        emit_def getHourWindow_def Let_def)

subsection \<open>C5: the order of the Mailer call and the increment\<close>




subsection \<open>C6: the recipients of a campaign\<close>

text \<open>
  C6, as the specification states it, fails: recipients are not deduplicated. A request
  naming \<open>a@x.io\<close> and \<open>A@x.io\<close> (with blanks around it) is accepted with two jobs, one for
  each, where the specification's list has one entry.
\<close>

theorem duplicate_recipients_are_kept:
  "fst (scheduleEmails uuid_a clock_a req_dup (initializeQueue initial_world)) =
     Created \<lparr>rs_scheduleId = ''s1'', rs_totalEmails = 2, rs_status = ''scheduled'',
              rs_createdJobs = 2\<rparr> \<and>
   map (\<lambda>(k, r). (k, ej_scheduleId r, ej_recipient r, ej_scheduledTime r))
     (emailJob_tbl (snd (scheduleEmails uuid_a clock_a req_dup (initializeQueue initial_world)))) =
     [(''j1'', ''s1'', ''a@x.io'', 1000), (''j2'', ''s1'', ''A@x.io'', 3000)] \<and>
   spec_recipients [''a@x.io'', '' A@x.io ''] = [''a@x.io'']"
  using world_dup_eval(1,2)
  by (simp add: world_dup_def spec_recipients_def toLowerCase_def toLowerCase_char_def trim_def
        is_space_def)

text \<open>
  C6, amended: for every request that is accepted in a reachable state, every recipient
  is trimmed and none is dropped or merged: the response's \<open>totalEmails\<close>, the stored
  \<open>totalCount\<close> and the number of job rows of the campaign all equal the length of the
  recipient list as submitted, and the rows created carry the trimmed recipients in the
  order of the request.
\<close>

theorem totalCount_is_number_of_recipients:
  assumes reach: "reachable w"
      and run: "scheduleEmails uuid clock req w = (Created b, w')"
      and rs: "req_recipients req = Some rs"
  shows "rs_totalEmails b = length rs \<and>
         (\<exists>campaign. findUnique (emailSchedule_tbl w') (rs_scheduleId b) = Some campaign \<and>
            es_totalCount campaign = length rs \<and> es_recipients campaign = map trim rs) \<and>
         job_count (rs_scheduleId b) w' = length rs \<and>
         map (\<lambda>(k, r). ej_recipient r) (drop (length (emailJob_tbl w)) (emailJob_tbl w')) = map trim rs"
proof -
  from run rs obtain start rows where a:
    "rs_scheduleId b = uuid 0" "rs_totalEmails b = length rs"
    "uuid 0 \<notin> fst ` set (emailSchedule_tbl w)"
    "emailSchedule_tbl w' =
       emailSchedule_tbl w @ [(uuid 0, new_schedule clock req start (map trim rs))]"
    "emailJob_tbl w' = emailJob_tbl w @ rows" "length rows = length rs"
    "rows_created uuid clock start (request_delayMs req) (new_template uuid req start) 0
       (map trim rs) rows"
    by (rule accepted_request)
  note D = store_inv_withD [OF reachable_store_inv [OF reach, unfolded store_inv_def]]
  let ?campaign = "new_schedule clock req start (map trim rs)"
  have c: "findUnique (emailSchedule_tbl w') (rs_scheduleId b) = Some ?campaign"
    unfolding a(1) a(4) using findUnique_append_fresh [OF a(3)] by (simp only: findUnique_single)
  have "\<forall>(k, r) \<in> set rows. ej_scheduleId r = uuid 0"
    using rows_created_fields(1) [OF a(7)] by (auto simp: new_template_def)
  from count_rows_of [OF this, of "uuid 0"]
  have n1: "length (filter (\<lambda>(k, r). ej_scheduleId r = uuid 0) rows) = length rows" by simp
  have "\<forall>(k, r) \<in> set (emailJob_tbl w). ej_scheduleId r \<noteq> uuid 0"
    using D(4) a(3) by force
  from count_zero_of [OF this]
  have n0: "length (filter (\<lambda>(k, r). ej_scheduleId r = uuid 0) (emailJob_tbl w)) = 0" .
  have jc: "job_count (rs_scheduleId b) w' = length rs"
    unfolding job_count_def a(1) a(5) using n0 n1 a(6) by simp
  have rec: "map (\<lambda>(k, r). ej_recipient r) rows = map trim rs"
  proof (rule nth_equalityI)
    show "length (map (\<lambda>(k, r). ej_recipient r) rows) = length (map trim rs)"
      using a(6) by simp
  next
    fix i assume "i < length (map (\<lambda>(k, r). ej_recipient r) rows)"
    then have il: "i < length rows" by simp
    obtain k row where kr: "rows ! i = (k, row)" by (cases "rows ! i")
    from a(7) il kr have
      "row\<lparr>ej_jobId := None\<rparr> =
         job_row clock start (request_delayMs req) (new_template uuid req start) i (map trim rs ! i)"
      by (auto simp: rows_created_def)
    then have "ej_recipient (row\<lparr>ej_jobId := None\<rparr>) = map trim rs ! i"
      by (simp add: job_row_def)
    then show "map (\<lambda>(k, r). ej_recipient r) rows ! i = map trim rs ! i"
      using il kr by simp
  qed
  have "es_totalCount ?campaign = length rs" "es_recipients ?campaign = map trim rs"
    by (simp_all add: new_schedule_def)
  with c jc rec a(2) a(5) show ?thesis by simp
qed

text \<open>The theorem at the request with one recipient.\<close>

theorem totalCount_is_number_of_recipients_witness:
  "reachable (initializeQueue initial_world) \<and>
   req_recipients req_a = Some [''a@x.io''] \<and>
   fst (scheduleEmails uuid_a clock_a req_a (initializeQueue initial_world)) =
     Created \<lparr>rs_scheduleId = ''s1'', rs_totalEmails = 1, rs_status = ''scheduled'',
              rs_createdJobs = 1\<rparr> \<and>
   job_count ''s1'' world_submitted = 1 \<and>
   map (\<lambda>(k, r). ej_recipient r) (emailJob_tbl world_submitted) = [''a@x.io'']"
  using totalCount_is_number_of_recipients [OF init_queue [OF boot] submitted_response, of "[''a@x.io'']"]
    init_queue [OF boot] submitted_response
  by (simp add: req_a_def job_count_def world_submitted_tables)

subsection \<open>C7: a send that fails\<close>




subsection \<open>C8: the scheduled time of the i-th job\<close>

text \<open>
  C8: for every accepted request with recipients \<open>rs\<close> and every index \<open>i\<close> below their
  number, the \<open>i\<close>-th job row created (which is the row with the \<open>i\<close>-th job identifier)
  belongs to the campaign, carries the trimmed \<open>i\<close>-th recipient, and has
  \<open>scheduledTime = campaign.startTime + i * campaign.delayMs\<close>.
\<close>

theorem scheduledTime_is_start_plus_index_times_delay:
  assumes run: "scheduleEmails uuid clock req w = (Created b, w')"
      and rs: "req_recipients req = Some rs"
      and i: "i < length rs"
  shows "\<exists>campaign row.
           findUnique (emailSchedule_tbl w') (rs_scheduleId b) = Some campaign \<and>
           emailJob_tbl w' ! (length (emailJob_tbl w) + i) = (uuid (Suc i), row) \<and>
           findUnique (emailJob_tbl w') (uuid (Suc i)) = Some row \<and>
           ej_scheduleId row = rs_scheduleId b \<and>
           ej_recipient row = trim (rs ! i) \<and>
           ej_scheduledTime row = es_startTime campaign + int i * es_delayMs campaign"
proof -
  from run rs obtain start rows where a:
    "req_startTime req = StartAt start"
    "rs_scheduleId b = uuid 0"
    "uuid 0 \<notin> fst ` set (emailSchedule_tbl w)"
    "emailSchedule_tbl w' =
       emailSchedule_tbl w @ [(uuid 0, new_schedule clock req start (map trim rs))]"
    "emailJob_tbl w' = emailJob_tbl w @ rows" "length rows = length rs"
    "distinct (map fst rows)" "fst ` set rows \<inter> fst ` set (emailJob_tbl w) = {}"
    "rows_created uuid clock start (request_delayMs req) (new_template uuid req start) 0
       (map trim rs) rows"
    by (rule accepted_request)
  let ?campaign = "new_schedule clock req start (map trim rs)"
  obtain k row where kr: "rows ! i = (k, row)" by (cases "rows ! i")
  have il: "i < length rows" using i a(6) by simp
  have mem: "(k, row) \<in> set rows" using il kr by (metis nth_mem)
  from a(9) il kr have k: "k = uuid (Suc i)"
    and e: "row\<lparr>ej_jobId := None\<rparr> =
            job_row clock start (request_delayMs req) (new_template uuid req start) i (map trim rs ! i)"
    by (auto simp: rows_created_def)
  have "ej_scheduleId (row\<lparr>ej_jobId := None\<rparr>) = uuid 0"
       "ej_recipient (row\<lparr>ej_jobId := None\<rparr>) = trim (rs ! i)"
       "ej_scheduledTime (row\<lparr>ej_jobId := None\<rparr>) = start + int i * request_delayMs req"
    unfolding e using i by (simp_all add: job_row_def new_template_def)
  then have f: "ej_scheduleId row = uuid 0" "ej_recipient row = trim (rs ! i)"
    "ej_scheduledTime row = start + int i * request_delayMs req"
    by simp_all
  have c: "findUnique (emailSchedule_tbl w') (rs_scheduleId b) = Some ?campaign"
    unfolding a(2) a(4) using findUnique_append_fresh [OF a(3)] by (simp only: findUnique_single)
  have fresh: "uuid (Suc i) \<notin> fst ` set (emailJob_tbl w)"
    using a(8) mem k by force
  have "findUnique rows k = Some row"
    unfolding findUnique_def using a(7) mem by simp
  then have l: "findUnique (emailJob_tbl w') (uuid (Suc i)) = Some row"
    unfolding a(5) using findUnique_append_fresh [OF fresh, of rows] k by simp
  have n: "emailJob_tbl w' ! (length (emailJob_tbl w) + i) = (uuid (Suc i), row)"
    unfolding a(5) using kr k by simp
  have "es_startTime ?campaign = start" "es_delayMs ?campaign = request_delayMs req"
    by (simp_all add: new_schedule_def)
  with c l n f a(2) show ?thesis by auto
qed

text \<open>The theorem at the second recipient of a request with two recipients.\<close>

theorem scheduledTime_is_start_plus_index_times_delay_witness:
  "req_recipients req_dup = Some [''a@x.io'', '' A@x.io ''] \<and>
   map_option (\<lambda>s. (es_startTime s, es_delayMs s)) (findUnique (emailSchedule_tbl world_dup) ''s1'') =
     Some (1000, 2000) \<and>
   map (\<lambda>(k, r). (k, ej_scheduleId r, ej_recipient r, ej_scheduledTime r)) (emailJob_tbl world_dup) =
     [(''j1'', ''s1'', ''a@x.io'', 1000), (''j2'', ''s1'', ''A@x.io'', 1000 + 1 * 2000)]"
proof -
  have r: "req_recipients req_dup = Some [''a@x.io'', '' A@x.io '']"
    by (simp add: req_dup_def req_a_def)
  have "(1::nat) < length [''a@x.io'', '' A@x.io '']" by simp
  from scheduledTime_is_start_plus_index_times_delay [OF dup_response r this] world_dup_eval(2,3) r
  show ?thesis
    by (cases "emailSchedule_tbl world_dup") (auto simp: findUnique_def)
qed

subsection \<open>C9: the result of sendEmail\<close>

text \<open>
  C9, as stated, fails in one point: the error message of a failure can be empty, namely
  when the Mailer throws an \<open>Error\<close> whose message is empty.
\<close>

theorem sendEmail_empty_error_message:
  "mailer_silent \<lparr>mo_from = worker_sender, mo_to = ''a@x.io'', mo_subject = ''Hi'',
                  mo_text = ''Hello'', mo_attachments = []\<rparr> =
     Rejected TransientTransport (ErrorObj []) \<and>
   fst (sendEmail (Some mailer_silent) ''a@x.io'' ''Hi'' ''Hello'' worker_sender [] initial_world) =
     Return \<lparr>success = False, messageId = None, error = Some []\<rparr>"
  by (simp add: sendEmail_def sendEmail_try_def mailer_silent_def error_message_def Let_def)

text \<open>
  C9, amended: for every input \<open>sendEmail\<close> returns a tagged result and never throws. When
  the Mailer accepts the message, the result is \<open>success = true\<close> with the Mailer's message
  id; when the Mailer throws, it is \<open>success = false\<close> with the message of the \<open>Error\<close>
  thrown, or with \<open>Unknown error\<close> when what was thrown is no \<open>Error\<close>; when the
  transporter was never initialised, it is \<open>success = false\<close> with the message of
  \<open>getEmailTransporter\<close>, and the Mailer is not called. The error message is empty only when
  the Mailer threw an \<open>Error\<close> with an empty message.
\<close>

theorem sendEmail_returns_tagged_result:
  "\<exists>r w'. sendEmail tr rcpt subj bdy sender atts w = (Return r, w') \<and>
     (case tr of
        None \<Rightarrow>
          w' = w \<and>
          r = \<lparr>success = False, messageId = None,
               error = Some ''Email transporter not initialized. Call initializeEmailTransporter() first.''\<rparr>
      | Some sendMail \<Rightarrow>
          w' = emit (MailerCalled \<lparr>mo_from = sender, mo_to = rcpt, mo_subject = subj,
                                   mo_text = bdy, mo_attachments = atts\<rparr>) w \<and>
          (case sendMail \<lparr>mo_from = sender, mo_to = rcpt, mo_subject = subj, mo_text = bdy,
                          mo_attachments = atts\<rparr> of
             Accepted mid \<Rightarrow> r = \<lparr>success = True, messageId = Some mid, error = None\<rparr>
           | Rejected kind (ErrorObj m) \<Rightarrow>
               r = \<lparr>success = False, messageId = None, error = Some m\<rparr>
           | Rejected kind NonError \<Rightarrow>
               r = \<lparr>success = False, messageId = None, error = Some ''Unknown error''\<rparr>)) \<and>
     (error r = Some [] \<longrightarrow>
        (\<exists>sendMail kind. tr = Some sendMail \<and>
           sendMail \<lparr>mo_from = sender, mo_to = rcpt, mo_subject = subj, mo_text = bdy,
                     mo_attachments = atts\<rparr> = Rejected kind (ErrorObj [])))"
proof (cases tr)
  case None
  then show ?thesis by (simp add: sendEmail_None)
next
  case (Some sendMail)
  show ?thesis
  proof (cases "sendMail \<lparr>mo_from = sender, mo_to = rcpt, mo_subject = subj, mo_text = bdy,
                         mo_attachments = atts\<rparr>")
    case (Accepted mid)
    then show ?thesis unfolding Some by (simp add: sendEmail_Accepted)
  next
    case (Rejected kind e)
    then show ?thesis unfolding Some
      by (cases e) (simp_all add: sendEmail_Rejected error_message_def)
  qed
qed

text \<open>The theorem for a Mailer that throws an \<open>Error\<close> with an empty message.\<close>

theorem sendEmail_returns_tagged_result_witness:
  "sendEmail (Some mailer_silent) ''a@x.io'' ''Hi'' ''Hello'' worker_sender [] initial_world =
     (Return \<lparr>success = False, messageId = None, error = Some []\<rparr>,
      emit (MailerCalled \<lparr>mo_from = worker_sender, mo_to = ''a@x.io'', mo_subject = ''Hi'',
                          mo_text = ''Hello'', mo_attachments = []\<rparr>) initial_world) \<and>
   mailer_silent \<lparr>mo_from = worker_sender, mo_to = ''a@x.io'', mo_subject = ''Hi'',
                  mo_text = ''Hello'', mo_attachments = []\<rparr> =
     Rejected TransientTransport (ErrorObj [])"
  using sendEmail_returns_tagged_result [of "Some mailer_silent" "''a@x.io''" "''Hi''" "''Hello''" worker_sender "[]" initial_world]
  by (auto simp: mailer_silent_def)

subsection \<open>C10: the delay of a job that is already due\<close>

text \<open>
  C10: with the queue initialised and the job id not yet in the queue, \<open>scheduleEmailJob\<close>
  returns the job id and appends the job with the delay \<open>max(0, scheduledTime - now)\<close>:
  zero when \<open>scheduledTime\<close> lies in the past, the difference otherwise. It does not throw.
\<close>

theorem scheduleEmailJob_clamps_delay:
  assumes "emailQueue w = Some q"
      and "(scheduleId data, recipient data, now) \<notin> set (map bj_id q)"
  shows "scheduleEmailJob now data w =
           (Return (scheduleId data, recipient data, now),
            w\<lparr>emailQueue := Some (q @
               [\<lparr>bj_name = ''email-'' @ recipient data, bj_data = data,
                 bj_delay = (if scheduledTime data < now then 0 else scheduledTime data - now),
                 bj_id = (scheduleId data, recipient data, now)\<rparr>])\<rparr>)"
  using assms by (simp add: scheduleEmailJob_def queue_add_def Let_def max_def)

text \<open>The theorem for a job whose scheduled time lies four seconds in the past.\<close>

theorem scheduleEmailJob_clamps_delay_witness:
  "scheduleEmailJob 5000 job_a (initializeQueue initial_world) =
     (Return (''s1'', ''a@x.io'', 5000),
      (initializeQueue initial_world)\<lparr>emailQueue := Some
         [\<lparr>bj_name = ''email-a@x.io'', bj_data = job_a, bj_delay = 0,
           bj_id = (''s1'', ''a@x.io'', 5000)\<rparr>]\<rparr>)"
  using scheduleEmailJob_clamps_delay [of "initializeQueue initial_world" "[]" job_a 5000]
  by (simp add: initializeQueue_def initial_world_def job_a_def)

end
